theory Spec2Isabelle
  imports Main
begin

section \<open>Python values\<close>

text \<open>
  A Python \<open>str\<close> is a sequence of Unicode code points, so it is modelled as a list of
  natural numbers. \<open>str_of\<close> turns an ASCII literal of the source into that form.
\<close>

type_synonym pystr = "nat list"

definition str_of :: "string \<Rightarrow> pystr" where
  "str_of s = map of_char s"

text \<open>
  The dictionaries that the launcher passes around hold JSON-like data: \<open>None\<close>, booleans,
  integers, strings, lists and dictionaries with string keys. A dictionary is an association
  list, read with \<open>map_of\<close> (the first binding of a key counts). Floats and sets are not
  modelled.
\<close>

datatype pyval =
    PNone
  | PBool bool
  | PInt int
  | PStr pystr
  | PList "pyval list"
  | PDict "(pystr \<times> pyval) list"

text \<open>
  Exceptions. \<open>KeyError\<close>, \<open>TypeError\<close> and \<open>AttributeError\<close> are the ones the
  launcher's own operations raise (a missing key, a subscript or a method on a value of the
  wrong type); their messages are never read by the modelled code. An exception raised by a
  collaborator is \<open>Raised b msg\<close>: \<open>b\<close> says whether its class derives from
  \<open>Exception\<close> (which is what \<open>except Exception\<close> catches) and \<open>msg\<close> is \<open>str(e)\<close>.
\<close>

datatype raised = Raised (is_Exception: bool) (message: pystr)

datatype exn = KeyError pyval | TypeError | AttributeError | Collab raised

definition bind_e :: "exn + 'a \<Rightarrow> ('a \<Rightarrow> exn + 'b) \<Rightarrow> exn + 'b" where
  "bind_e m f = (case m of Inl e \<Rightarrow> Inl e | Inr x \<Rightarrow> f x)"

text \<open>\<open>d[k]\<close> for a string key \<open>k\<close>.\<close>

fun subscript :: "pyval \<Rightarrow> pystr \<Rightarrow> exn + pyval" where
  "subscript (PDict kvs) k = (case map_of kvs k of None \<Rightarrow> Inl (KeyError (PStr k)) | Some v \<Rightarrow> Inr v)"
| "subscript PNone k = Inl TypeError"
| "subscript (PBool b) k = Inl TypeError"
| "subscript (PInt i) k = Inl TypeError"
| "subscript (PStr s) k = Inl TypeError"
| "subscript (PList xs) k = Inl TypeError"

text \<open>\<open>d.get(k, default)\<close>; only a dictionary has the method.\<close>

fun py_get :: "pyval \<Rightarrow> pystr \<Rightarrow> pyval \<Rightarrow> exn + pyval" where
  "py_get (PDict kvs) k dflt = (case map_of kvs k of None \<Rightarrow> Inr dflt | Some v \<Rightarrow> Inr v)"
| "py_get PNone k dflt = Inl AttributeError"
| "py_get (PBool b) k dflt = Inl AttributeError"
| "py_get (PInt i) k dflt = Inl AttributeError"
| "py_get (PStr s) k dflt = Inl AttributeError"
| "py_get (PList xs) k dflt = Inl AttributeError"

text \<open>Truth value of an object in a condition.\<close>

fun truthy :: "pyval \<Rightarrow> bool" where
  "truthy PNone = False"
| "truthy (PBool b) = b"
| "truthy (PInt i) = (i \<noteq> 0)"
| "truthy (PStr s) = (s \<noteq> [])"
| "truthy (PList xs) = (xs \<noteq> [])"
| "truthy (PDict kvs) = (kvs \<noteq> [])"

text \<open>Lists and dictionaries are unhashable: using one as a dictionary key raises \<open>TypeError\<close>.\<close>

fun hashable :: "pyval \<Rightarrow> bool" where
  "hashable (PList xs) = False"
| "hashable (PDict kvs) = False"
| "hashable PNone = True"
| "hashable (PBool b) = True"
| "hashable (PInt i) = True"
| "hashable (PStr s) = True"

section \<open>Recommendation derivation\<close>

text \<open>
  The dictionary \<open>recommendations\<close> of \<open>_generate_recommendations\<close> has five fixed keys,
  each holding a list of strings: a record. \<open>extend\<close> and \<open>append\<close> on one of its lists
  are updates of the field.
\<close>

record recommendations =
  immediate_actions :: "pystr list"
  short_term_actions :: "pystr list"
  long_term_actions :: "pystr list"
  warnings :: "pystr list"
  opportunities :: "pystr list"

text \<open>The table \<open>situation_actions\<close>, as the dictionary literal of the source.\<close>

definition situation_actions :: "(pystr \<times> (pystr \<times> pystr list) list) list" where
  "situation_actions =
    [(str_of ''traffic_stop'',
       [(str_of ''immediate'',
           [str_of ''Document all details of the encounter'', str_of ''Preserve any evidence'']),
        (str_of ''short_term'',
           [str_of ''Review citation for errors'', str_of ''Research applicable traffic laws'']),
        (str_of ''long_term'',
           [str_of ''Consider challenging jurisdiction'',
            str_of ''File administrative remedy if applicable''])]),
     (str_of ''fee_demand'',
       [(str_of ''immediate'',
           [str_of ''Do not pay without challenging authority'', str_of ''Request fee schedule'']),
        (str_of ''short_term'',
           [str_of ''Challenge lawful authority for fee'', str_of ''Demand due process hearing'']),
        (str_of ''long_term'',
           [str_of ''File administrative appeal'',
            str_of ''Consider legal action if rights violated''])]),
     (str_of ''court_summons'',
       [(str_of ''immediate'',
           [str_of ''Calculate response deadline'', str_of ''Preserve all rights'']),
        (str_of ''short_term'',
           [str_of ''File appropriate response'', str_of ''Challenge jurisdiction if applicable'']),
        (str_of ''long_term'',
           [str_of ''Prepare defense strategy'',
            str_of ''Consider counterclaims if applicable''])])]"

text \<open>\<open>actions.get(k, [])\<close> on an entry of the table.\<close>

definition actions_get :: "(pystr \<times> pystr list) list \<Rightarrow> pystr \<Rightarrow> pystr list" where
  "actions_get actions k = (case map_of actions k of None \<Rightarrow> [] | Some xs \<Rightarrow> xs)"

text \<open>
  \<open>situation['type'] in situation_actions\<close>: the key is hashed first, and only a string
  can equal one of the table's keys.
\<close>

definition in_situation_actions :: "pyval \<Rightarrow> exn + bool" where
  "in_situation_actions t =
     (if \<not> hashable t then Inl TypeError
      else Inr (case t of PStr s \<Rightarrow> s \<in> set (map fst situation_actions) | _ \<Rightarrow> False))"

text \<open>\<open>situation_actions[situation['type']]\<close>.\<close>

definition situation_actions_lookup :: "pyval \<Rightarrow> exn + (pystr \<times> pystr list) list" where
  "situation_actions_lookup t =
     (if \<not> hashable t then Inl TypeError
      else case t of
             PStr s \<Rightarrow> (case map_of situation_actions s of
                          None \<Rightarrow> Inl (KeyError t) | Some actions \<Rightarrow> Inr actions)
           | _ \<Rightarrow> Inl (KeyError t))"

definition urgent_actions :: "pystr list" where
  "urgent_actions =
     [str_of ''URGENT: Time-sensitive situation detected'',
      str_of ''Review all deadlines and timelines immediately'',
      str_of ''Consider emergency legal consultation'']"

definition high_risk_action :: pystr where
  "high_risk_action = str_of ''HIGH RISK: Seek immediate legal counsel''"

definition high_risk_warning :: pystr where
  "high_risk_warning = str_of ''Situation contains high-risk legal elements''"

text \<open>
  \<open>VeroBrixSystem._generate_recommendations\<close> (an Isabelle name cannot start with an
  underscore). The statements of the source are kept in their order; every subscript that
  can raise is a \<open>bind_e\<close>.
\<close>

definition generate_recommendations :: "pyval \<Rightarrow> pyval \<Rightarrow> pyval \<Rightarrow> exn + recommendations" where
  "generate_recommendations situation legal_summary remedy =
    (let recommendations = \<lparr>immediate_actions = [], short_term_actions = [],
           long_term_actions = [], warnings = [], opportunities = []\<rparr> in
     bind_e (subscript situation (str_of ''urgency'')) (\<lambda>urgency.
     bind_e (subscript urgency (str_of ''level'')) (\<lambda>level.
     let recommendations =
           (if level = PStr (str_of ''high'')
            then recommendations\<lparr>immediate_actions :=
                   immediate_actions recommendations @ urgent_actions\<rparr>
            else recommendations) in
     bind_e (subscript legal_summary (str_of ''risk_level'')) (\<lambda>risk_level.
     let recommendations =
           (if risk_level = PStr (str_of ''HIGH'')
            then recommendations\<lparr>
                   immediate_actions := immediate_actions recommendations @ [high_risk_action],
                   warnings := warnings recommendations @ [high_risk_warning]\<rparr>
            else recommendations) in
     bind_e (py_get remedy (str_of ''contradictions'') PNone) (\<lambda>contradictions.
     let recommendations =
           (if truthy contradictions
            then recommendations\<lparr>short_term_actions :=
                   short_term_actions recommendations
                     @ [str_of ''Challenge contradictory provisions in documents'']\<rparr>
            else recommendations) in
     bind_e (subscript situation (str_of ''type'')) (\<lambda>type.
     bind_e (in_situation_actions type) (\<lambda>known.
     bind_e (if known
             then bind_e (subscript situation (str_of ''type'')) (\<lambda>type'.
                  bind_e (situation_actions_lookup type') (\<lambda>actions.
                  Inr (recommendations\<lparr>
                    immediate_actions := immediate_actions recommendations
                      @ actions_get actions (str_of ''immediate''),
                    short_term_actions := short_term_actions recommendations
                      @ actions_get actions (str_of ''short_term''),
                    long_term_actions := long_term_actions recommendations
                      @ actions_get actions (str_of ''long_term'')\<rparr>)))
             else Inr recommendations) (\<lambda>recommendations.
     bind_e (subscript legal_summary (str_of ''tone_summary'')) (\<lambda>tone_summary.
     let recommendations =
           (if tone_summary = PStr (str_of ''positive'')
            then recommendations\<lparr>opportunities := opportunities recommendations
                   @ [str_of ''Document contains favorable language - preserve these terms'']\<rparr>
            else recommendations) in
     bind_e (subscript situation (str_of ''jurisdiction'')) (\<lambda>jurisdiction.
     bind_e (subscript jurisdiction (str_of ''primary'')) (\<lambda>primary.
     let recommendations =
           (if primary = PStr (str_of ''commercial'')
            then recommendations\<lparr>opportunities := opportunities recommendations
                   @ [str_of ''Commercial jurisdiction may provide UCC protections'']\<rparr>
            else recommendations) in
     Inr recommendations)))))))))))"

text \<open>
  Two auxiliary functions, used to state what the derivation computes: the list that the
  table contributes for a value of \<open>situation['type']\<close> and one of the keys
  \<open>immediate\<close>, \<open>short_term\<close>, \<open>long_term\<close>, and the record that the function
  returns once all its lookups have succeeded.
\<close>

definition table_actions :: "pyval \<Rightarrow> pystr \<Rightarrow> pystr list" where
  "table_actions t k =
     (case t of
        PStr s \<Rightarrow> (case map_of situation_actions s of
                     None \<Rightarrow> [] | Some actions \<Rightarrow> actions_get actions k)
      | _ \<Rightarrow> [])"

definition derived_recommendations ::
  "pyval \<Rightarrow> pyval \<Rightarrow> pyval \<Rightarrow> pyval \<Rightarrow> pyval \<Rightarrow> pyval \<Rightarrow> recommendations" where
  "derived_recommendations level risk_level contradictions type tone_summary primary =
     \<lparr>immediate_actions =
           (if level = PStr (str_of ''high'') then urgent_actions else [])
           @ (if risk_level = PStr (str_of ''HIGH'') then [high_risk_action] else [])
           @ table_actions type (str_of ''immediate''),
         short_term_actions =
           (if truthy contradictions
            then [str_of ''Challenge contradictory provisions in documents''] else [])
           @ table_actions type (str_of ''short_term''),
         long_term_actions = table_actions type (str_of ''long_term''),
         warnings = (if risk_level = PStr (str_of ''HIGH'') then [high_risk_warning] else []),
         opportunities =
           (if tone_summary = PStr (str_of ''positive'')
            then [str_of ''Document contains favorable language - preserve these terms'']
            else [])
           @ (if primary = PStr (str_of ''commercial'')
              then [str_of ''Commercial jurisdiction may provide UCC protections'']
              else [])\<rparr>"

section \<open>Formatting and printing\<close>

text \<open>
  Two parts of Python's Unicode database are parameters of the model: the case mapping
  behind \<open>str.upper\<close> and the classification behind \<open>str.isprintable\<close>, which
  \<open>repr\<close> consults for code points above ASCII.
\<close>

record unicode_db =
  str_upper :: "pystr \<Rightarrow> pystr"
  isprintable :: "nat \<Rightarrow> bool"

text \<open>Decimal digits of a number, as \<open>str\<close> prints an \<open>int\<close>.\<close>

fun decimal :: "nat \<Rightarrow> pystr" where
  "decimal n = (if n < 10 then [48 + n] else decimal (n div 10) @ [48 + n mod 10])"

declare decimal.simps [simp del]

definition str_int :: "int \<Rightarrow> pystr" where
  "str_int i = (if i < 0 then 45 # decimal (nat (- i)) else decimal (nat i))"

text \<open>\<open>repr\<close> of a string: the quote is chosen as CPython does, and characters are escaped.\<close>

definition hex_digit :: "nat \<Rightarrow> nat" where
  "hex_digit d = (if d < 10 then 48 + d else 87 + d)"

fun hex_fixed :: "nat \<Rightarrow> nat \<Rightarrow> pystr" where
  "hex_fixed 0 n = []"
| "hex_fixed (Suc w) n = hex_fixed w (n div 16) @ [hex_digit (n mod 16)]"

definition repr_char :: "unicode_db \<Rightarrow> nat \<Rightarrow> nat \<Rightarrow> pystr" where
  "repr_char U quote c =
     (if c = quote \<or> c = 92 then [92, c]
      else if c = 9 then [92, 116]
      else if c = 10 then [92, 110]
      else if c = 13 then [92, 114]
      else if c < 32 \<or> c = 127 then [92, 120] @ hex_fixed 2 c
      else if c < 127 then [c]
      else if isprintable U c then [c]
      else if c < 256 then [92, 120] @ hex_fixed 2 c
      else if c < 65536 then [92, 117] @ hex_fixed 4 c
      else [92, 85] @ hex_fixed 8 c)"

definition repr_str :: "unicode_db \<Rightarrow> pystr \<Rightarrow> pystr" where
  "repr_str U s =
     (let quote = (if 39 \<in> set s \<and> 34 \<notin> set s then 34 else 39)
      in [quote] @ concat (map (repr_char U quote) s) @ [quote])"

text \<open>\<open>sep.join(xs)\<close> on a list of strings.\<close>

fun str_join :: "pystr \<Rightarrow> pystr list \<Rightarrow> pystr" where
  "str_join sep [] = []"
| "str_join sep [x] = x"
| "str_join sep (x # y # ys) = x @ sep @ str_join sep (y # ys)"

fun py_repr :: "unicode_db \<Rightarrow> pyval \<Rightarrow> pystr" where
  "py_repr U PNone = str_of ''None''"
| "py_repr U (PBool b) = (if b then str_of ''True'' else str_of ''False'')"
| "py_repr U (PInt i) = str_int i"
| "py_repr U (PStr s) = repr_str U s"
| "py_repr U (PList xs) = str_of ''['' @ str_join (str_of '', '') (map (py_repr U) xs) @ str_of '']''"
| "py_repr U (PDict kvs) =
     str_of ''{'' @ str_join (str_of '', '')
        (map (\<lambda>(k, v). repr_str U k @ str_of '': '' @ py_repr U v) kvs) @ str_of ''}''"

text \<open>What an f-string writes for \<open>{v}\<close>: a string as it is, any other value by its \<open>repr\<close>.\<close>

definition py_str :: "unicode_db \<Rightarrow> pyval \<Rightarrow> pystr" where
  "py_str U v = (case v of PStr s \<Rightarrow> s | _ \<Rightarrow> py_repr U v)"

definition py_upper :: "unicode_db \<Rightarrow> pyval \<Rightarrow> exn + pystr" where
  "py_upper U v = (case v of PStr s \<Rightarrow> Inr (str_upper U s) | _ \<Rightarrow> Inl AttributeError)"

text \<open>Iteration: over the items of a list, the characters of a string, the keys of a dictionary.\<close>

fun py_iter :: "pyval \<Rightarrow> exn + pyval list" where
  "py_iter (PList xs) = Inr xs"
| "py_iter (PStr s) = Inr (map (\<lambda>c. PStr [c]) s)"
| "py_iter (PDict kvs) = Inr (map (\<lambda>(k, v). PStr k) kvs)"
| "py_iter PNone = Inl TypeError"
| "py_iter (PBool b) = Inl TypeError"
| "py_iter (PInt i) = Inl TypeError"

fun py_len :: "pyval \<Rightarrow> exn + nat" where
  "py_len (PList xs) = Inr (length xs)"
| "py_len (PStr s) = Inr (length s)"
| "py_len (PDict kvs) = Inr (length kvs)"
| "py_len PNone = Inl TypeError"
| "py_len (PBool b) = Inl TypeError"
| "py_len (PInt i) = Inl TypeError"

text \<open>\<open>sep.join(v)\<close> on an arbitrary value: every item has to be a string.\<close>

fun str_items :: "pyval list \<Rightarrow> exn + pystr list" where
  "str_items [] = Inr []"
| "str_items (PStr s # xs) = bind_e (str_items xs) (\<lambda>ss. Inr (s # ss))"
| "str_items (x # xs) = Inl TypeError"

definition py_join :: "pystr \<Rightarrow> pyval \<Rightarrow> exn + pystr" where
  "py_join sep v = bind_e (py_iter v) (\<lambda>xs. bind_e (str_items xs) (\<lambda>ss. Inr (str_join sep ss)))"

text \<open>
  Code with effects is a function from the state of the world to a result, or an exception,
  and the new state. For \<open>print_analysis_summary\<close> the world is the standard output, a
  list with one entry for each call of \<open>print\<close>.
\<close>

type_synonym ('w, 'a) io = "'w \<Rightarrow> (exn + 'a) \<times> 'w"

definition return_io :: "'a \<Rightarrow> ('w, 'a) io" where
  "return_io x = (\<lambda>w. (Inr x, w))"

definition bind_io :: "('w, 'a) io \<Rightarrow> ('a \<Rightarrow> ('w, 'b) io) \<Rightarrow> ('w, 'b) io" where
  "bind_io m f = (\<lambda>w. case m w of (Inl e, w') \<Rightarrow> (Inl e, w') | (Inr x, w') \<Rightarrow> f x w')"

definition lift_e :: "exn + 'a \<Rightarrow> ('w, 'a) io" where
  "lift_e m = (\<lambda>w. (m, w))"

text \<open>A \<open>for\<close> loop over a list, and \<open>enumerate(xs, start)\<close>.\<close>

fun for_each :: "'a list \<Rightarrow> ('a \<Rightarrow> ('w, unit) io) \<Rightarrow> ('w, unit) io" where
  "for_each [] body = return_io ()"
| "for_each (x # xs) body = bind_io (body x) (\<lambda>_. for_each xs body)"

definition enumerate :: "'a list \<Rightarrow> nat \<Rightarrow> (nat \<times> 'a) list" where
  "enumerate xs start = zip [start ..< start + length xs] xs"

definition print :: "pystr \<Rightarrow> (pystr list, unit) io" where
  "print line = (\<lambda>out. (Inr (), out @ [line]))"

text \<open>
  \<open>VeroBrixSystem.print_analysis_summary\<close>, one definition for each commented block of
  the source, in the order of the source.
\<close>

definition rule_line :: pystr where
  "rule_line = replicate 60 61"

definition summary_header :: "unicode_db \<Rightarrow> pyval \<Rightarrow> (pystr list, unit) io" where
  "summary_header U results =
     bind_io (print ([10] @ rule_line)) (\<lambda>_.
     bind_io (print (str_of ''VEROBRIX LEGAL ANALYSIS SUMMARY'')) (\<lambda>_.
     bind_io (print rule_line) (\<lambda>_.
     bind_io (lift_e (subscript results (str_of ''session_id''))) (\<lambda>session_id.
     bind_io (print (str_of ''Session ID: '' @ py_str U session_id)) (\<lambda>_.
     bind_io (lift_e (subscript results (str_of ''timestamp''))) (\<lambda>timestamp.
     bind_io (print (str_of ''Analysis Time: '' @ py_str U timestamp)) (\<lambda>_.
     bind_io (lift_e (bind_e (subscript results (str_of ''situation_analysis'')) (\<lambda>sa.
                      bind_e (subscript sa (str_of ''type'')) (py_upper U)))) (\<lambda>type.
     bind_io (print (str_of ''Situation Type: '' @ type)) (\<lambda>_.
     bind_io (lift_e (bind_e (subscript results (str_of ''legal_analysis'')) (\<lambda>la.
                      bind_e (subscript la (str_of ''legal_summary'')) (\<lambda>ls.
                      subscript ls (str_of ''risk_level''))))) (\<lambda>risk_level.
     bind_io (print (str_of ''Risk Level: '' @ py_str U risk_level)) (\<lambda>_.
     bind_io (lift_e (bind_e (subscript results (str_of ''situation_analysis'')) (\<lambda>sa.
                      bind_e (subscript sa (str_of ''urgency'')) (\<lambda>urgency.
                      bind_e (subscript urgency (str_of ''level'')) (py_upper U))))) (\<lambda>level.
     print (str_of ''Urgency: '' @ level)))))))))))))"

definition summary_jurisdiction :: "unicode_db \<Rightarrow> pyval \<Rightarrow> (pystr list, unit) io" where
  "summary_jurisdiction U results =
     bind_io (lift_e (bind_e (subscript results (str_of ''situation_analysis'')) (\<lambda>sa.
                      subscript sa (str_of ''jurisdiction'')))) (\<lambda>jurisdiction.
     bind_io (lift_e (bind_e (subscript jurisdiction (str_of ''primary'')) (py_upper U))) (\<lambda>primary.
     bind_io (print (str_of ''Primary Jurisdiction: '' @ primary)) (\<lambda>_.
     bind_io (lift_e (subscript jurisdiction (str_of ''secondary''))) (\<lambda>secondary.
     if truthy secondary
     then bind_io (lift_e (bind_e (subscript jurisdiction (str_of ''secondary'')) (\<lambda>secondary'.
                           bind_e (py_join (str_of '', '') secondary') (\<lambda>joined.
                           Inr (str_upper U joined))))) (\<lambda>joined.
          print (str_of ''Secondary Jurisdictions: '' @ joined))
     else return_io ()))))"

definition summary_entities :: "unicode_db \<Rightarrow> pyval \<Rightarrow> (pystr list, unit) io" where
  "summary_entities U results =
     bind_io (lift_e (bind_e (subscript results (str_of ''situation_analysis'')) (\<lambda>sa.
                      subscript sa (str_of ''entities'')))) (\<lambda>entities.
     bind_io (lift_e (subscript entities (str_of ''people''))) (\<lambda>people.
     bind_io (if truthy people
              then bind_io (lift_e (bind_e (subscript entities (str_of ''people''))
                                      (py_join (str_of '', '')))) (\<lambda>joined.
                   print (str_of ''People Involved: '' @ joined))
              else return_io ()) (\<lambda>_.
     bind_io (lift_e (subscript entities (str_of ''organizations''))) (\<lambda>organizations.
     if truthy organizations
     then bind_io (lift_e (bind_e (subscript entities (str_of ''organizations''))
                             (py_join (str_of '', '')))) (\<lambda>joined.
          print (str_of ''Organizations: '' @ joined))
     else return_io ()))))"

definition contradiction_line :: "unicode_db \<Rightarrow> nat \<times> pyval \<Rightarrow> pystr" where
  "contradiction_line U = (\<lambda>(i, contradiction).
     case contradiction of
       PDict kvs \<Rightarrow>
         str_of ''  '' @ decimal i @ str_of ''. ''
           @ py_str U (case map_of kvs (str_of ''description'') of
                         None \<Rightarrow> PStr (str_of ''Unknown contradiction'') | Some d \<Rightarrow> d)
     | _ \<Rightarrow> str_of ''  '' @ decimal i @ str_of ''. '' @ py_str U contradiction)"

definition summary_contradictions :: "unicode_db \<Rightarrow> pyval \<Rightarrow> (pystr list, unit) io" where
  "summary_contradictions U results =
     bind_io (lift_e (bind_e (subscript results (str_of ''legal_analysis'')) (\<lambda>la.
                      subscript la (str_of ''contradictions'')))) (\<lambda>contradictions.
     if truthy contradictions
     then bind_io (lift_e (py_len contradictions)) (\<lambda>n.
          bind_io (print ([10] @ str_of ''CONTRADICTIONS DETECTED: '' @ decimal n)) (\<lambda>_.
          bind_io (lift_e (py_iter contradictions)) (\<lambda>items.
          for_each (enumerate items 1) (\<lambda>item. print (contradiction_line U item)))))
     else return_io ())"

definition summary_risks :: "unicode_db \<Rightarrow> pyval \<Rightarrow> (pystr list, unit) io" where
  "summary_risks U results =
     bind_io (lift_e (bind_e (subscript results (str_of ''legal_analysis'')) (\<lambda>la.
                      subscript la (str_of ''legal_risks'')))) (\<lambda>risks.
     if truthy risks
     then bind_io (lift_e (py_len risks)) (\<lambda>n.
          bind_io (print ([10] @ str_of ''LEGAL RISKS IDENTIFIED: '' @ decimal n)) (\<lambda>_.
          bind_io (lift_e (py_iter risks)) (\<lambda>items.
          for_each items (\<lambda>risk.
            bind_io (lift_e (subscript risk (str_of ''level''))) (\<lambda>level.
            bind_io (lift_e (subscript risk (str_of ''description''))) (\<lambda>description.
            print (str_of ''  - '' @ py_str U level @ str_of '' RISK: ''
                     @ py_str U description)))))))
     else return_io ())"

definition bullet :: pystr where
  "bullet = [8226]"

definition warning_sign :: pystr where
  "warning_sign = [9888, 65039]"

definition summary_immediate :: "unicode_db \<Rightarrow> pyval \<Rightarrow> (pystr list, unit) io" where
  "summary_immediate U results =
     bind_io (lift_e (bind_e (subscript results (str_of ''recommendations'')) (\<lambda>r.
                      subscript r (str_of ''immediate_actions'')))) (\<lambda>immediate.
     if truthy immediate
     then bind_io (print ([10] @ str_of ''IMMEDIATE ACTIONS REQUIRED:'')) (\<lambda>_.
          bind_io (lift_e (py_iter immediate)) (\<lambda>items.
          for_each items (\<lambda>action.
            print (str_of ''  '' @ bullet @ str_of '' '' @ py_str U action))))
     else return_io ())"

definition summary_warnings :: "unicode_db \<Rightarrow> pyval \<Rightarrow> (pystr list, unit) io" where
  "summary_warnings U results =
     bind_io (lift_e (bind_e (subscript results (str_of ''recommendations'')) (\<lambda>r.
                      subscript r (str_of ''warnings'')))) (\<lambda>warnings.
     if truthy warnings
     then bind_io (print ([10] @ str_of ''WARNINGS:'')) (\<lambda>_.
          bind_io (lift_e (py_iter warnings)) (\<lambda>items.
          for_each items (\<lambda>warning.
            print (str_of ''  '' @ warning_sign @ str_of ''  '' @ py_str U warning))))
     else return_io ())"

definition summary_strategies :: "unicode_db \<Rightarrow> pyval \<Rightarrow> (pystr list, unit) io" where
  "summary_strategies U results =
     bind_io (lift_e (bind_e (subscript results (str_of ''remedy'')) (\<lambda>r.
                      subscript r (str_of ''legal_strategies'')))) (\<lambda>strategies.
     if truthy strategies
     then bind_io (print ([10] @ str_of ''RECOMMENDED LEGAL STRATEGIES:'')) (\<lambda>_.
          bind_io (lift_e (py_iter strategies)) (\<lambda>items.
          for_each items (\<lambda>strategy.
            print (str_of ''  '' @ bullet @ str_of '' '' @ py_str U strategy))))
     else return_io ())"

definition print_analysis_summary :: "unicode_db \<Rightarrow> pyval \<Rightarrow> (pystr list, unit) io" where
  "print_analysis_summary U results =
     bind_io (summary_header U results) (\<lambda>_.
     bind_io (summary_jurisdiction U results) (\<lambda>_.
     bind_io (summary_entities U results) (\<lambda>_.
     bind_io (summary_contradictions U results) (\<lambda>_.
     bind_io (summary_risks U results) (\<lambda>_.
     bind_io (summary_immediate U results) (\<lambda>_.
     bind_io (summary_warnings U results) (\<lambda>_.
     bind_io (summary_strategies U results) (\<lambda>_.
     print ([10] @ rule_line)))))))))"

text \<open>
  A field of a result that is a list \<open>xs\<close>, or that holds some other empty value (in which
  case \<open>xs\<close> is empty): the two ways in which a section of the summary has nothing to show.
\<close>

definition list_or_empty :: "pyval \<Rightarrow> pyval list \<Rightarrow> bool" where
  "list_or_empty v xs \<longleftrightarrow> v = PList xs \<or> (\<not> truthy v \<and> xs = [])"

text \<open>
  A database that knows ASCII only, for running the model on concrete values: upper case
  for the letters \<open>a\<close> to \<open>z\<close>, and no printable code point above ASCII.
\<close>

definition ascii_db :: unicode_db where
  "ascii_db = \<lparr>str_upper = map (\<lambda>c. if 97 \<le> c \<and> c \<le> 122 then c - 32 else c),
                isprintable = (\<lambda>c. False)\<rparr>"

section \<open>The analysis pipeline\<close>

text \<open>
  The analyzers, the provenance log, the clock and the file system are not part of the
  launcher: they are parameters. Each is a function on the world that returns a value or
  raises. \<open>now_isoformat\<close> is \<open>datetime.now().isoformat()\<close>, and \<open>dump_json filename
  results\<close> is the block that opens \<open>filename\<close> for writing and dumps \<open>results\<close> there.
  Values are passed by value: a collaborator that mutates an argument it was given is outside
  the model.
\<close>

type_synonym ('w, 'a) ext = "'w \<Rightarrow> (raised + 'a) \<times> 'w"

record 'w collaborators =
  interpret_situation :: "pyval \<Rightarrow> pyval \<Rightarrow> ('w, pyval) ext"
  extract_clauses :: "pyval \<Rightarrow> ('w, pyval) ext"
  detect_contradictions :: "pyval \<Rightarrow> ('w, pyval) ext"
  analyze_legal_structure :: "pyval \<Rightarrow> ('w, pyval) ext"
  interpret_tone :: "pyval \<Rightarrow> ('w, pyval) ext"
  analyze_legal_risk :: "pyval \<Rightarrow> ('w, pyval) ext"
  generate_legal_summary :: "pyval \<Rightarrow> pyval \<Rightarrow> pyval \<Rightarrow> ('w, pyval) ext"
  synthesize_remedy :: "pyval \<Rightarrow> ('w, pyval) ext"
  log_provenance :: "pystr \<Rightarrow> pystr \<Rightarrow> ('w, unit) ext"
  now_isoformat :: "('w, pystr) ext"
  dump_json :: "pystr \<Rightarrow> pyval \<Rightarrow> ('w, unit) ext"

definition call :: "('w, 'a) ext \<Rightarrow> ('w, 'a) io" where
  "call m = (\<lambda>w. case m w of (Inl e, w') \<Rightarrow> (Inl (Collab e), w') | (Inr x, w') \<Rightarrow> (Inr x, w'))"

definition actor :: pystr where
  "actor = str_of ''VeroBrix System''"

text \<open>The dictionary that \<open>_generate_recommendations\<close> returns, as a value.\<close>

definition recommendations_dict :: "recommendations \<Rightarrow> pyval" where
  "recommendations_dict r =
     PDict [(str_of ''immediate_actions'', PList (map PStr (immediate_actions r))),
            (str_of ''short_term_actions'', PList (map PStr (short_term_actions r))),
            (str_of ''long_term_actions'', PList (map PStr (long_term_actions r))),
            (str_of ''warnings'', PList (map PStr (warnings r))),
            (str_of ''opportunities'', PList (map PStr (opportunities r)))]"

text \<open>The dictionary literal \<open>remedy_input\<close>; its subscripts are evaluated in the order written.\<close>

definition remedy_input :: "pyval \<Rightarrow> pyval \<Rightarrow> pyval \<Rightarrow> pyval \<Rightarrow> exn + pyval" where
  "remedy_input situation legal_summary contradictions tone_analysis =
     bind_e (subscript situation (str_of ''type'')) (\<lambda>type.
     bind_e (subscript legal_summary (str_of ''risk_level'')) (\<lambda>risk_level.
     bind_e (subscript situation (str_of ''urgency'')) (\<lambda>urgency.
     bind_e (subscript situation (str_of ''jurisdiction'')) (\<lambda>jurisdiction.
     bind_e (subscript situation (str_of ''legal_framework'')) (\<lambda>legal_framework.
     Inr (PDict [(str_of ''type'', type),
                 (str_of ''risk_level'', risk_level),
                 (str_of ''contradictions'', contradictions),
                 (str_of ''tone_analysis'', tone_analysis),
                 (str_of ''urgency'', urgency),
                 (str_of ''jurisdiction'', jurisdiction),
                 (str_of ''legal_framework'', legal_framework)]))))))"

text \<open>
  \<open>VeroBrixSystem.analyze_situation\<close>, in two parts: \<open>compile_results\<close> is the body up
  to and including the dictionary \<open>results\<close>, and \<open>analyze_situation\<close> saves, logs and
  returns it. \<open>session_id\<close> is the field of \<open>self\<close>.
\<close>

definition compile_results ::
  "'w collaborators \<Rightarrow> pystr \<Rightarrow> pyval \<Rightarrow> pyval \<Rightarrow> ('w, pyval) io" where
  "compile_results C session_id input_text situation_context =
     bind_io (call (log_provenance C actor
                (str_of ''Starting comprehensive situation analysis''))) (\<lambda>_.
     bind_io (call (log_provenance C actor
                (str_of ''Step 1: Interpreting situation with SituationInterpreter''))) (\<lambda>_.
     bind_io (call (interpret_situation C input_text situation_context)) (\<lambda>situation.
     bind_io (call (log_provenance C actor
                (str_of ''Step 2: Extracting clauses with JARVIS''))) (\<lambda>_.
     bind_io (call (extract_clauses C input_text)) (\<lambda>clauses.
     bind_io (call (log_provenance C actor
                (str_of ''Step 3: Detecting contradictions with JARVIS''))) (\<lambda>_.
     bind_io (call (detect_contradictions C clauses)) (\<lambda>contradictions.
     bind_io (call (log_provenance C actor
                (str_of ''Step 4: Analyzing legal structure with JARVIS''))) (\<lambda>_.
     bind_io (call (analyze_legal_structure C input_text)) (\<lambda>legal_structure.
     bind_io (call (log_provenance C actor
                (str_of ''Step 5: Analyzing tone and risks with FRIDAY''))) (\<lambda>_.
     bind_io (call (interpret_tone C input_text)) (\<lambda>tone_analysis.
     bind_io (call (analyze_legal_risk C input_text)) (\<lambda>legal_risks.
     bind_io (call (log_provenance C actor
                (str_of ''Step 6: Generating legal summary with FRIDAY''))) (\<lambda>_.
     bind_io (call (generate_legal_summary C input_text tone_analysis legal_risks)) (\<lambda>legal_summary.
     bind_io (call (log_provenance C actor (str_of ''Step 7: Synthesizing remedy''))) (\<lambda>_.
     bind_io (lift_e (remedy_input situation legal_summary contradictions tone_analysis)) (\<lambda>request.
     bind_io (call (synthesize_remedy C request)) (\<lambda>remedy.
     bind_io (call (now_isoformat C)) (\<lambda>timestamp.
     bind_io (lift_e (generate_recommendations situation legal_summary remedy)) (\<lambda>recommendations.
     return_io (PDict
       [(str_of ''session_id'', PStr session_id),
        (str_of ''timestamp'', PStr timestamp),
        (str_of ''input'', PDict [(str_of ''raw_text'', input_text),
                                  (str_of ''context'', situation_context)]),
        (str_of ''situation_analysis'', situation),
        (str_of ''legal_analysis'',
           PDict [(str_of ''clauses'', clauses),
                  (str_of ''contradictions'', contradictions),
                  (str_of ''legal_structure'', legal_structure),
                  (str_of ''tone_analysis'', tone_analysis),
                  (str_of ''legal_risks'', legal_risks),
                  (str_of ''legal_summary'', legal_summary)]),
        (str_of ''remedy'', remedy),
        (str_of ''recommendations'', recommendations_dict recommendations)]
     ))))))))))))))))))))"

text \<open>
  \<open>VeroBrixSystem._save_analysis_results\<close>. \<open>save_failed\<close> is the \<open>except Exception\<close>
  clause: it handles an exception whose class derives from \<open>Exception\<close> and lets any other
  pass.
\<close>

definition output_filename :: "pystr \<Rightarrow> pystr" where
  "output_filename session_id =
     str_of ''output/verobrix_analysis_'' @ session_id @ str_of ''.json''"

definition save_failed :: "'w collaborators \<Rightarrow> raised \<Rightarrow> ('w, unit) io" where
  "save_failed C e =
     (if is_Exception e
      then call (log_provenance C actor (str_of ''Error saving results: '' @ message e))
      else (\<lambda>w. (Inl (Collab e), w)))"

definition save_analysis_results :: "'w collaborators \<Rightarrow> pystr \<Rightarrow> pyval \<Rightarrow> ('w, unit) io" where
  "save_analysis_results C session_id results =
     (\<lambda>w. let filename = output_filename session_id in
       case dump_json C filename results w of
         (Inl e, w1) \<Rightarrow> save_failed C e w1
       | (Inr _, w1) \<Rightarrow>
           (case log_provenance C actor
                   (str_of ''Analysis results saved to '' @ filename) w1 of
              (Inl e, w2) \<Rightarrow> save_failed C e w2
            | (Inr _, w2) \<Rightarrow> (Inr (), w2)))"

definition analyze_situation ::
  "'w collaborators \<Rightarrow> pystr \<Rightarrow> pyval \<Rightarrow> pyval \<Rightarrow> ('w, pyval) io" where
  "analyze_situation C session_id input_text situation_context =
     bind_io (compile_results C session_id input_text situation_context) (\<lambda>results.
     bind_io (save_analysis_results C session_id results) (\<lambda>_.
     bind_io (call (log_provenance C actor
                (str_of ''Comprehensive analysis completed''))) (\<lambda>_.
     return_io results)))"

text \<open>
  Collaborators for running the pipeline on a concrete input. The world is the list of
  the calls made so far; every analyzer returns a fixed value, and the outcome of writing
  the file is a parameter.
\<close>

datatype event = Logged pystr pystr | Called string "pyval list" | Dumped pystr

definition demo_situation :: pyval where
  "demo_situation =
     PDict [(str_of ''type'', PStr (str_of ''fee_demand'')),
            (str_of ''urgency'', PDict [(str_of ''level'', PStr (str_of ''low''))]),
            (str_of ''jurisdiction'',
               PDict [(str_of ''primary'', PStr (str_of ''commercial'')),
                      (str_of ''secondary'', PList [])]),
            (str_of ''entities'',
               PDict [(str_of ''people'', PList []), (str_of ''organizations'', PList [])]),
            (str_of ''legal_framework'', PStr (str_of ''UCC''))]"

definition demo_summary :: pyval where
  "demo_summary =
     PDict [(str_of ''risk_level'', PStr (str_of ''HIGH'')),
            (str_of ''tone_summary'', PStr (str_of ''neutral''))]"

definition demo_collaborators :: "raised + unit \<Rightarrow> event list collaborators" where
  "demo_collaborators dump_outcome =
     \<lparr>interpret_situation = (\<lambda>text context w.
          (Inr demo_situation, w @ [Called ''interpret_situation'' [text, context]])),
      extract_clauses = (\<lambda>text w.
          (Inr (PList [PStr (str_of ''clause A''), PStr (str_of ''clause B'')]),
           w @ [Called ''extract_clauses'' [text]])),
      detect_contradictions = (\<lambda>clauses w.
          (Inr (PList [PStr (str_of ''A against B'')]),
           w @ [Called ''detect_contradictions'' [clauses]])),
      analyze_legal_structure = (\<lambda>text w.
          (Inr (PDict []), w @ [Called ''analyze_legal_structure'' [text]])),
      interpret_tone = (\<lambda>text w.
          (Inr (PStr (str_of ''neutral'')), w @ [Called ''interpret_tone'' [text]])),
      analyze_legal_risk = (\<lambda>text w.
          (Inr (PList []), w @ [Called ''analyze_legal_risk'' [text]])),
      generate_legal_summary = (\<lambda>text tone risks w.
          (Inr demo_summary, w @ [Called ''generate_legal_summary'' [text, tone, risks]])),
      synthesize_remedy = (\<lambda>request w.
          (Inr (PDict [(str_of ''legal_strategies'', PList [])]),
           w @ [Called ''synthesize_remedy'' [request]])),
      log_provenance = (\<lambda>who what w. (Inr (), w @ [Logged who what])),
      now_isoformat = (\<lambda>w. (Inr (str_of ''2024-01-01T12:00:00''), w @ [Called ''now'' []])),
      dump_json = (\<lambda>filename results w. (dump_outcome, w @ [Dumped filename]))\<rparr>"

section \<open>Recommendation derivation over an explicit store\<close>

text \<open>
  To say that \<open>_generate_recommendations\<close> does not mutate its arguments, the same
  function is written once more over a store of mutable objects. Lists and dictionaries live
  in the store and are referred to by address; \<open>None\<close>, booleans, integers and strings are
  immutable and are held as values. The store is a list of objects, an address is an index
  into it, and a new object is put at the end.
\<close>

type_synonym addr = nat

datatype hval = HNone | HBool bool | HInt int | HStr pystr | HRef addr

datatype hobj = HList "hval list" | HDict "(pystr \<times> hval) list"

type_synonym heap = "hobj list"

text \<open>
  The operations that the function performs on its arguments, reading the store. An address
  outside the store does not occur in a Python heap; the operations treat it like a value of
  the wrong type.
\<close>

definition h_subscript :: "heap \<Rightarrow> hval \<Rightarrow> pystr \<Rightarrow> exn + hval" where
  "h_subscript h v k =
     (case v of
        HRef a \<Rightarrow>
          (if a < length h
           then (case h ! a of
                   HDict kvs \<Rightarrow> (case map_of kvs k of
                                   None \<Rightarrow> Inl (KeyError (PStr k)) | Some x \<Rightarrow> Inr x)
                 | HList xs \<Rightarrow> Inl TypeError)
           else Inl TypeError)
      | _ \<Rightarrow> Inl TypeError)"

definition h_get :: "heap \<Rightarrow> hval \<Rightarrow> pystr \<Rightarrow> hval \<Rightarrow> exn + hval" where
  "h_get h v k dflt =
     (case v of
        HRef a \<Rightarrow>
          (if a < length h
           then (case h ! a of
                   HDict kvs \<Rightarrow> (case map_of kvs k of None \<Rightarrow> Inr dflt | Some x \<Rightarrow> Inr x)
                 | HList xs \<Rightarrow> Inl AttributeError)
           else Inl AttributeError)
      | _ \<Rightarrow> Inl AttributeError)"

definition h_truthy :: "heap \<Rightarrow> hval \<Rightarrow> bool" where
  "h_truthy h v =
     (case v of
        HNone \<Rightarrow> False
      | HBool b \<Rightarrow> b
      | HInt i \<Rightarrow> i \<noteq> 0
      | HStr s \<Rightarrow> s \<noteq> []
      | HRef a \<Rightarrow> a < length h \<and> (case h ! a of HList xs \<Rightarrow> xs \<noteq> [] | HDict kvs \<Rightarrow> kvs \<noteq> []))"

definition h_hashable :: "hval \<Rightarrow> bool" where
  "h_hashable v = (case v of HRef a \<Rightarrow> False | _ \<Rightarrow> True)"

definition h_in_situation_actions :: "hval \<Rightarrow> exn + bool" where
  "h_in_situation_actions t =
     (if \<not> h_hashable t then Inl TypeError
      else Inr (case t of HStr s \<Rightarrow> s \<in> set (map fst situation_actions) | _ \<Rightarrow> False))"

definition scalar_of :: "hval \<Rightarrow> pyval" where
  "scalar_of v = (case v of HBool b \<Rightarrow> PBool b | HInt i \<Rightarrow> PInt i | HStr s \<Rightarrow> PStr s | _ \<Rightarrow> PNone)"

definition h_situation_actions_lookup :: "hval \<Rightarrow> exn + (pystr \<times> pystr list) list" where
  "h_situation_actions_lookup t =
     (if \<not> h_hashable t then Inl TypeError
      else case t of
             HStr s \<Rightarrow> (case map_of situation_actions s of
                          None \<Rightarrow> Inl (KeyError (scalar_of t)) | Some actions \<Rightarrow> Inr actions)
           | _ \<Rightarrow> Inl (KeyError (scalar_of t)))"

text \<open>
  Computations on the store: reading, allocating a new object, and \<open>list.extend\<close>, which
  updates the list object in place.
\<close>

definition st_read :: "(heap \<Rightarrow> exn + 'a) \<Rightarrow> (heap, 'a) io" where
  "st_read f = (\<lambda>h. (f h, h))"

definition st_alloc :: "hobj \<Rightarrow> (heap, hval) io" where
  "st_alloc obj = (\<lambda>h. (Inr (HRef (length h)), h @ [obj]))"

definition st_extend :: "hval \<Rightarrow> hval list \<Rightarrow> (heap, unit) io" where
  "st_extend v items =
     (\<lambda>h. case v of
             HRef a \<Rightarrow>
               (if a < length h
                then (case h ! a of
                        HList xs \<Rightarrow> (Inr (), h[a := HList (xs @ items)])
                      | HDict kvs \<Rightarrow> (Inl AttributeError, h))
                else (Inl AttributeError, h))
           | _ \<Rightarrow> (Inl AttributeError, h))"

text \<open>
  The dictionary literal \<open>recommendations\<close>: five new empty lists and a new dictionary
  that refers to them. \<open>extend_field\<close> is \<open>recommendations[key].extend(items)\<close>, and
  \<open>append\<close> is the extension by one item. The table \<open>situation_actions\<close> is built anew
  by each call and only read, so it is kept as a value.
\<close>

definition new_recommendations :: "(heap, hval) io" where
  "new_recommendations =
     bind_io (st_alloc (HList [])) (\<lambda>immediate.
     bind_io (st_alloc (HList [])) (\<lambda>short_term.
     bind_io (st_alloc (HList [])) (\<lambda>long_term.
     bind_io (st_alloc (HList [])) (\<lambda>warnings.
     bind_io (st_alloc (HList [])) (\<lambda>opportunities.
     st_alloc (HDict [(str_of ''immediate_actions'', immediate),
                      (str_of ''short_term_actions'', short_term),
                      (str_of ''long_term_actions'', long_term),
                      (str_of ''warnings'', warnings),
                      (str_of ''opportunities'', opportunities)]))))))"

definition extend_field :: "hval \<Rightarrow> pystr \<Rightarrow> pystr list \<Rightarrow> (heap, unit) io" where
  "extend_field recommendations key items =
     bind_io (st_read (\<lambda>h. h_subscript h recommendations key)) (\<lambda>field.
     st_extend field (map HStr items))"

text \<open>
  \<open>_generate_recommendations\<close> over the store, statement by statement as in the source.
\<close>

definition generate_recommendations_store :: "hval \<Rightarrow> hval \<Rightarrow> hval \<Rightarrow> (heap, hval) io" where
  "generate_recommendations_store situation legal_summary remedy =
     bind_io new_recommendations (\<lambda>recommendations.
     bind_io (st_read (\<lambda>h. h_subscript h situation (str_of ''urgency''))) (\<lambda>urgency.
     bind_io (st_read (\<lambda>h. h_subscript h urgency (str_of ''level''))) (\<lambda>level.
     bind_io (if level = HStr (str_of ''high'')
              then extend_field recommendations (str_of ''immediate_actions'') urgent_actions
              else return_io ()) (\<lambda>_.
     bind_io (st_read (\<lambda>h. h_subscript h legal_summary (str_of ''risk_level''))) (\<lambda>risk_level.
     bind_io (if risk_level = HStr (str_of ''HIGH'')
              then bind_io (extend_field recommendations (str_of ''immediate_actions'')
                              [high_risk_action]) (\<lambda>_.
                   extend_field recommendations (str_of ''warnings'') [high_risk_warning])
              else return_io ()) (\<lambda>_.
     bind_io (st_read (\<lambda>h. h_get h remedy (str_of ''contradictions'') HNone)) (\<lambda>contradictions.
     bind_io (st_read (\<lambda>h. Inr (h_truthy h contradictions))) (\<lambda>nonempty.
     bind_io (if nonempty
              then extend_field recommendations (str_of ''short_term_actions'')
                     [str_of ''Challenge contradictory provisions in documents'']
              else return_io ()) (\<lambda>_.
     bind_io (st_read (\<lambda>h. h_subscript h situation (str_of ''type''))) (\<lambda>type.
     bind_io (lift_e (h_in_situation_actions type)) (\<lambda>known.
     bind_io (if known
              then bind_io (st_read (\<lambda>h. h_subscript h situation (str_of ''type''))) (\<lambda>type'.
                   bind_io (lift_e (h_situation_actions_lookup type')) (\<lambda>actions.
                   bind_io (extend_field recommendations (str_of ''immediate_actions'')
                              (actions_get actions (str_of ''immediate''))) (\<lambda>_.
                   bind_io (extend_field recommendations (str_of ''short_term_actions'')
                              (actions_get actions (str_of ''short_term''))) (\<lambda>_.
                   extend_field recommendations (str_of ''long_term_actions'')
                     (actions_get actions (str_of ''long_term''))))))
              else return_io ()) (\<lambda>_.
     bind_io (st_read (\<lambda>h. h_subscript h legal_summary (str_of ''tone_summary''))) (\<lambda>tone_summary.
     bind_io (if tone_summary = HStr (str_of ''positive'')
              then extend_field recommendations (str_of ''opportunities'')
                     [str_of ''Document contains favorable language - preserve these terms'']
              else return_io ()) (\<lambda>_.
     bind_io (st_read (\<lambda>h. h_subscript h situation (str_of ''jurisdiction''))) (\<lambda>jurisdiction.
     bind_io (st_read (\<lambda>h. h_subscript h jurisdiction (str_of ''primary''))) (\<lambda>primary.
     bind_io (if primary = HStr (str_of ''commercial'')
              then extend_field recommendations (str_of ''opportunities'')
                     [str_of ''Commercial jurisdiction may provide UCC protections'']
              else return_io ()) (\<lambda>_.
     return_io recommendations)))))))))))))))))"

text \<open>
  \<open>holds h v p\<close>: in the store \<open>h\<close>, the value \<open>v\<close> holds the data \<open>p\<close>. Two values
  that hold the same data have identical contents, in the same order, whatever their
  addresses.
\<close>

inductive holds :: "heap \<Rightarrow> hval \<Rightarrow> pyval \<Rightarrow> bool" for h :: heap where
  holds_None: "holds h HNone PNone"
| holds_Bool: "holds h (HBool b) (PBool b)"
| holds_Int: "holds h (HInt i) (PInt i)"
| holds_Str: "holds h (HStr s) (PStr s)"
| holds_List: "a < length h \<Longrightarrow> h ! a = HList vs \<Longrightarrow> list_all2 (holds h) vs ps
              \<Longrightarrow> holds h (HRef a) (PList ps)"
| holds_Dict: "a < length h \<Longrightarrow> h ! a = HDict kvs \<Longrightarrow> map fst kvs = map fst pkvs
              \<Longrightarrow> list_all2 (holds h) (map snd kvs) (map snd pkvs)
              \<Longrightarrow> holds h (HRef a) (PDict pkvs)"

text \<open>
  The store \<open>h\<close> followed by the six objects of a \<open>recommendations\<close> dictionary with the
  contents \<open>R\<close>; \<open>matches\<close> and \<open>refines\<close> compare a computation on such a store with an
  outcome of the function on values.
\<close>

definition rec_heap :: "heap \<Rightarrow> recommendations \<Rightarrow> heap" where
  "rec_heap h R =
     h @ [HList (map HStr (immediate_actions R)),
          HList (map HStr (short_term_actions R)),
          HList (map HStr (long_term_actions R)),
          HList (map HStr (warnings R)),
          HList (map HStr (opportunities R)),
          HDict [(str_of ''immediate_actions'', HRef (length h)),
                 (str_of ''short_term_actions'', HRef (length h + 1)),
                 (str_of ''long_term_actions'', HRef (length h + 2)),
                 (str_of ''warnings'', HRef (length h + 3)),
                 (str_of ''opportunities'', HRef (length h + 4))]]"

fun matches :: "heap \<Rightarrow> (exn + hval) \<times> heap \<Rightarrow> exn + recommendations \<Rightarrow> bool" where
  "matches h (res, h') (Inl e) \<longleftrightarrow> res = Inl e \<and> (\<exists>R'. h' = rec_heap h R')"
| "matches h (res, h') (Inr recs) \<longleftrightarrow> res = Inr (HRef (length h + 5)) \<and> h' = rec_heap h recs"

definition refines :: "heap \<Rightarrow> recommendations \<Rightarrow> (heap, hval) io \<Rightarrow> exn + recommendations \<Rightarrow> bool" where
  "refines h R m x = matches h (m (rec_heap h R)) x"

text \<open>
  Two stores that hold the same situation, legal summary and remedy at different addresses.
\<close>

definition demo_heap :: heap where
  "demo_heap =
     [HDict [(str_of ''level'', HStr (str_of ''high''))],
      HDict [(str_of ''primary'', HStr (str_of ''commercial''))],
      HDict [(str_of ''type'', HStr (str_of ''fee_demand'')),
             (str_of ''urgency'', HRef 0),
             (str_of ''jurisdiction'', HRef 1)],
      HDict [(str_of ''risk_level'', HStr (str_of ''HIGH'')),
             (str_of ''tone_summary'', HStr (str_of ''neutral''))],
      HList [HStr (str_of ''A against B'')],
      HDict [(str_of ''contradictions'', HRef 4)]]"

definition demo_heap' :: heap where
  "demo_heap' =
     [HList [HStr (str_of ''A against B'')],
      HDict [(str_of ''contradictions'', HRef 0)],
      HDict [(str_of ''risk_level'', HStr (str_of ''HIGH'')),
             (str_of ''tone_summary'', HStr (str_of ''neutral''))],
      HDict [(str_of ''primary'', HStr (str_of ''commercial''))],
      HDict [(str_of ''level'', HStr (str_of ''high''))],
      HList [],
      HDict [(str_of ''type'', HStr (str_of ''fee_demand'')),
             (str_of ''urgency'', HRef 4),
             (str_of ''jurisdiction'', HRef 3)]]"

section \<open>The HTML cleaner\<close>

text \<open>
  Regular expressions with the constructs that \<open>clean_html\<close> uses: literals, the lazy
  \<open>.*?\<close>, sequence, alternative, one capturing group and the backreference to it. A
  match state is the text captured by the group and the rest of the input. \<open>rmatch\<close>
  returns the states after all the ways to match, in the order in which a backtracking
  matcher tries them: the head of the list is the match that \<open>re\<close> finds.
\<close>

datatype regex =
    Lit nat
  | Str pystr
  | LazyDotStar
  | Seq regex regex
  | Alt regex regex
  | Group regex
  | Backref

type_synonym mstate = "pystr option \<times> pystr"

fun lazy_dot_star :: "bool \<Rightarrow> pystr option \<Rightarrow> pystr \<Rightarrow> mstate list" where
  "lazy_dot_star dotall g [] = [(g, [])]"
| "lazy_dot_star dotall g (c # cs) =
     (g, c # cs) # (if dotall \<or> c \<noteq> 10 then lazy_dot_star dotall g cs else [])"

fun rmatch :: "bool \<Rightarrow> regex \<Rightarrow> mstate \<Rightarrow> mstate list" where
  "rmatch dotall (Lit c) (g, s) = (case s of [] \<Rightarrow> [] | d # ds \<Rightarrow> if d = c then [(g, ds)] else [])"
| "rmatch dotall (Str t) (g, s) = (if take (length t) s = t then [(g, drop (length t) s)] else [])"
| "rmatch dotall LazyDotStar (g, s) = lazy_dot_star dotall g s"
| "rmatch dotall (Seq r1 r2) st = concat (map (rmatch dotall r2) (rmatch dotall r1 st))"
| "rmatch dotall (Alt r1 r2) st = rmatch dotall r1 st @ rmatch dotall r2 st"
| "rmatch dotall (Group r) (g, s) =
     map (\<lambda>(g', s'). (Some (take (length s - length s') s), s')) (rmatch dotall r (g, s))"
| "rmatch dotall Backref (g, s) =
     (case g of
        None \<Rightarrow> []
      | Some t \<Rightarrow> if take (length t) s = t then [(g, drop (length t) s)] else [])"

text \<open>
  \<open>re.sub(pattern, repl, s)\<close> for a pattern that cannot match the empty string, as both
  patterns of \<open>clean_html\<close> are: the leftmost match is replaced and the scan goes on
  behind it.
\<close>

function re_sub :: "bool \<Rightarrow> regex \<Rightarrow> pystr \<Rightarrow> pystr \<Rightarrow> pystr" where
  "re_sub dotall r repl s =
     (case rmatch dotall r (None, s) of
        (g, rest) # alternatives \<Rightarrow>
          if length rest < length s then repl @ re_sub dotall r repl rest
          else (case s of [] \<Rightarrow> [] | c # cs \<Rightarrow> c # re_sub dotall r repl cs)
      | [] \<Rightarrow> (case s of [] \<Rightarrow> [] | c # cs \<Rightarrow> c # re_sub dotall r repl cs))"
  by pat_completeness auto
termination
  by (relation "measure (\<lambda>(dotall, r, repl, s). length s)") auto

declare re_sub.simps [simp del]

definition script_style_pattern :: regex where
  "script_style_pattern =
     Seq (Lit 60) (Seq (Group (Alt (Str (str_of ''script'')) (Str (str_of ''style''))))
       (Seq LazyDotStar (Seq (Lit 62)
         (Seq LazyDotStar (Seq (Str (str_of ''</'')) (Seq Backref (Lit 62)))))))"

definition tag_pattern :: regex where
  "tag_pattern = Seq (Lit 60) (Seq LazyDotStar (Lit 62))"

text \<open>\<open>s.replace(old, new)\<close>.\<close>

function replace :: "pystr \<Rightarrow> pystr \<Rightarrow> pystr \<Rightarrow> pystr" where
  "replace old new s =
     (if old = [] then new @ concat (map (\<lambda>c. c # new) s)
      else case s of
             [] \<Rightarrow> []
           | c # cs \<Rightarrow> if take (length old) s = old
                       then new @ replace old new (drop (length old) s)
                       else c # replace old new cs)"
  by pat_completeness auto
termination
  by (relation "measure (\<lambda>(old, new, s). length s)") auto

declare replace.simps [simp del]

text \<open>
  The line boundaries of \<open>str.splitlines\<close> and the whitespace of \<open>str.strip\<close>, as code
  points.
\<close>

definition is_linebreak :: "nat \<Rightarrow> bool" where
  "is_linebreak c \<longleftrightarrow> c \<in> {10, 11, 12, 13, 28, 29, 30, 133, 8232, 8233}"

definition is_space :: "nat \<Rightarrow> bool" where
  "is_space c \<longleftrightarrow>
     (9 \<le> c \<and> c \<le> 13) \<or> (28 \<le> c \<and> c \<le> 32) \<or> c = 133 \<or> c = 160 \<or> c = 5760
     \<or> (8192 \<le> c \<and> c \<le> 8202) \<or> c = 8232 \<or> c = 8233 \<or> c = 8239 \<or> c = 8287
     \<or> c = 12288"

function splitlines :: "pystr \<Rightarrow> pystr list" where
  "splitlines s =
     (if s = [] then []
      else case dropWhile (\<lambda>c. \<not> is_linebreak c) s of
             [] \<Rightarrow> [s]
           | c # rest \<Rightarrow>
               takeWhile (\<lambda>c. \<not> is_linebreak c) s
                 # splitlines (case rest of
                                 d # rest' \<Rightarrow> if c = 13 \<and> d = 10 then rest' else rest
                               | [] \<Rightarrow> rest))"
  by pat_completeness auto
termination
proof (relation "measure length", goal_cases)
  case 1
  show ?case by simp
next
  case (2 s c rest)
  have "length (dropWhile (\<lambda>c. \<not> is_linebreak c) s) \<le> length s"
    by (rule length_dropWhile_le)
  with 2 show ?case by (auto split: list.splits)
qed

declare splitlines.simps [simp del]

definition strip :: "pystr \<Rightarrow> pystr" where
  "strip s = rev (dropWhile is_space (rev (dropWhile is_space s)))"

definition clean_html :: "pystr \<Rightarrow> pystr" where
  "clean_html html_content =
     (let text = re_sub True script_style_pattern [] html_content;
          text = re_sub False tag_pattern [] text;
          text = replace (str_of ''&amp;'') (str_of ''&'') text;
          text = replace (str_of ''&lt;'') (str_of ''<'') text;
          text = replace (str_of ''&gt;'') (str_of ''>'') text;
          text = replace (str_of ''&quot;'') [34] text;
          text = replace (str_of ''&#39;'') [39] text
      in str_join [10] (map strip (filter (\<lambda>line. strip line \<noteq> []) (splitlines text))))"

section \<open>Facts about the basic operations\<close>

lemma str_of_eq_iff [simp]: "str_of a = str_of b \<longleftrightarrow> a = b"
  by (simp add: str_of_def inj_map_eq_map[OF inj_of_char])

lemma bind_e_Inr [simp]: "bind_e (Inr x) f = f x"
  by (simp add: bind_e_def)

lemma bind_e_Inl [simp]: "bind_e (Inl e) f = Inl e"
  by (simp add: bind_e_def)

lemma bind_e_cong: "(\<And>x. m = Inr x \<Longrightarrow> f x = g x) \<Longrightarrow> bind_e m f = bind_e m g"
  by (cases m) simp_all

lemma bind_e_eq_Inr: "bind_e m f = Inr y \<longleftrightarrow> (\<exists>x. m = Inr x \<and> f x = Inr y)"
  by (cases m) simp_all

lemma map_sum_bind_e: "map_sum id g (bind_e m f) = bind_e m (\<lambda>x. map_sum id g (f x))"
  by (cases m) simp_all

section \<open>Properties of recommendation derivation\<close>

text \<open>
  The derivation in closed form: the lookups in the order in which the source makes them,
  and then the record \<open>derived_recommendations\<close>.
\<close>

lemma type_step:
  assumes "hashable t"
  shows "bind_e (in_situation_actions t) (\<lambda>known.
     bind_e (if known then bind_e (situation_actions_lookup t) (\<lambda>actions. Inr (F actions))
     else Inr r) G) = G (case t of PStr s \<Rightarrow> (case map_of situation_actions s of None \<Rightarrow> r | Some actions \<Rightarrow> F actions) | _ \<Rightarrow> r)"
proof (cases t)
  case (PStr s)
  show ?thesis
  proof (cases "map_of situation_actions s")
    case None
    then have "s \<notin> set (map fst situation_actions)"
      by (simp add: map_of_eq_None_iff)
    with None show ?thesis
      by (simp add: PStr in_situation_actions_def del: set_map)
  next
    case (Some a)
    then have "s \<in> set (map fst situation_actions)"
      by (metis map_of_eq_None_iff option.distinct(1) set_map)
    with Some show ?thesis
      by (simp add: PStr in_situation_actions_def situation_actions_lookup_def del: set_map)
  qed
qed (use assms in \<open>simp_all add: in_situation_actions_def\<close>)

lemma type_step_unhashable:
  assumes "\<not> hashable t"
  shows "bind_e (in_situation_actions t) G = Inl TypeError"
  using assms by (simp add: in_situation_actions_def)


lemma generate_recommendations_closed_form:
  "generate_recommendations situation legal_summary remedy =
    bind_e (subscript situation (str_of ''urgency'')) (\<lambda>urgency.
    bind_e (subscript urgency (str_of ''level'')) (\<lambda>level.
    bind_e (subscript legal_summary (str_of ''risk_level'')) (\<lambda>risk_level.
    bind_e (py_get remedy (str_of ''contradictions'') PNone) (\<lambda>contradictions.
    bind_e (subscript situation (str_of ''type'')) (\<lambda>type.
    if \<not> hashable type then Inl TypeError else
    bind_e (subscript legal_summary (str_of ''tone_summary'')) (\<lambda>tone_summary.
    bind_e (subscript situation (str_of ''jurisdiction'')) (\<lambda>jurisdiction.
    bind_e (subscript jurisdiction (str_of ''primary'')) (\<lambda>primary.
    Inr (derived_recommendations level risk_level contradictions type tone_summary primary)))))))))"
proof (cases "subscript situation (str_of ''urgency'')")
  case Inl
  then show ?thesis by (simp add: generate_recommendations_def)
next
  case urgency: (Inr urgency)
  show ?thesis
  proof (cases "subscript urgency (str_of ''level'')")
    case Inl
    with urgency show ?thesis by (simp add: generate_recommendations_def)
  next
    case level: (Inr level)
    show ?thesis
    proof (cases "subscript legal_summary (str_of ''risk_level'')")
      case Inl
      with urgency level show ?thesis by (simp add: generate_recommendations_def Let_def)
    next
      case risk: (Inr risk_level)
      show ?thesis
      proof (cases "py_get remedy (str_of ''contradictions'') PNone")
        case Inl
        with urgency level risk show ?thesis
          by (simp add: generate_recommendations_def Let_def)
      next
        case contra: (Inr contradictions)
        show ?thesis
        proof (cases "subscript situation (str_of ''type'')")
          case Inl
          with urgency level risk contra show ?thesis
            by (simp add: generate_recommendations_def Let_def)
        next
          case type: (Inr type)
          show ?thesis
          proof (cases "hashable type")
            case False
            with urgency level risk contra type show ?thesis
              by (simp add: generate_recommendations_def Let_def type_step_unhashable)
          next
            case True
            have rec_eq: "(case type of
                PStr s \<Rightarrow> (case map_of situation_actions s of None \<Rightarrow> r
                   | Some actions \<Rightarrow> r\<lparr>
                    immediate_actions := immediate_actions r
                      @ actions_get actions (str_of ''immediate''),
                    short_term_actions := short_term_actions r
                      @ actions_get actions (str_of ''short_term''),
                    long_term_actions := long_term_actions r
                      @ actions_get actions (str_of ''long_term'')\<rparr>)
                | _ \<Rightarrow> r) = r\<lparr>
                    immediate_actions := immediate_actions r
                      @ table_actions type (str_of ''immediate''),
                    short_term_actions := short_term_actions r
                      @ table_actions type (str_of ''short_term''),
                    long_term_actions := long_term_actions r
                      @ table_actions type (str_of ''long_term'')\<rparr>" for r :: recommendations
              by (simp add: table_actions_def split: pyval.splits option.splits)
            show ?thesis
              unfolding generate_recommendations_def Let_def urgency level risk contra type
                bind_e_Inr type_step [OF True] rec_eq
              apply (simp only: True not_True_eq_False if_False)
              apply (intro bind_e_cong)
              apply (simp add: derived_recommendations_def)
              done
          qed
        qed
      qed
    qed
  qed
qed

lemma generate_recommendations_Inr:
  assumes "generate_recommendations situation legal_summary remedy = Inr recs"
  obtains urgency level risk_level contradictions type tone_summary jurisdiction primary
  where "subscript situation (str_of ''urgency'') = Inr urgency"
    and "subscript urgency (str_of ''level'') = Inr level"
    and "subscript legal_summary (str_of ''risk_level'') = Inr risk_level"
    and "py_get remedy (str_of ''contradictions'') PNone = Inr contradictions"
    and "subscript situation (str_of ''type'') = Inr type" and "hashable type"
    and "subscript legal_summary (str_of ''tone_summary'') = Inr tone_summary"
    and "subscript situation (str_of ''jurisdiction'') = Inr jurisdiction"
    and "subscript jurisdiction (str_of ''primary'') = Inr primary"
    and "recs = derived_recommendations level risk_level contradictions type tone_summary primary"
proof -
  from assms obtain urgency where 1: "subscript situation (str_of ''urgency'') = Inr urgency"
    by (auto simp: generate_recommendations_closed_form bind_e_eq_Inr)
  from assms obtain level where 2: "subscript urgency (str_of ''level'') = Inr level"
    by (auto simp: generate_recommendations_closed_form 1 bind_e_eq_Inr)
  from assms obtain risk_level where 3: "subscript legal_summary (str_of ''risk_level'') = Inr risk_level"
    by (auto simp: generate_recommendations_closed_form 1 2 bind_e_eq_Inr)
  from assms obtain contradictions where 4: "py_get remedy (str_of ''contradictions'') PNone = Inr contradictions"
    by (auto simp: generate_recommendations_closed_form 1 2 3 bind_e_eq_Inr)
  from assms obtain type where 5: "subscript situation (str_of ''type'') = Inr type"
    by (auto simp: generate_recommendations_closed_form 1 2 3 4 bind_e_eq_Inr)
  from assms have 6: "hashable type"
    by (auto simp: generate_recommendations_closed_form 1 2 3 4 5 split: if_splits)
  from assms obtain tone_summary where 7: "subscript legal_summary (str_of ''tone_summary'') = Inr tone_summary"
    by (auto simp: generate_recommendations_closed_form 1 2 3 4 5 6 bind_e_eq_Inr)
  from assms obtain jurisdiction where 8: "subscript situation (str_of ''jurisdiction'') = Inr jurisdiction"
    by (auto simp: generate_recommendations_closed_form 1 2 3 4 5 6 7 bind_e_eq_Inr)
  from assms obtain primary where 9: "subscript jurisdiction (str_of ''primary'') = Inr primary"
    by (auto simp: generate_recommendations_closed_form 1 2 3 4 5 6 7 8 bind_e_eq_Inr)
  from assms have "recs = derived_recommendations level risk_level contradictions type tone_summary primary"
    by (simp add: generate_recommendations_closed_form 1 2 3 4 5 6 7 8 9)
  with 1 2 3 4 5 6 7 8 9 that show thesis by blast
qed

text \<open>
  C2. A situation with \<open>urgency.level = "high"\<close> and \<open>type = "traffic_stop"\<close>, together
  with a legal summary with \<open>risk_level = "HIGH"\<close>, gives six immediate actions: the three
  urgency strings, the risk string, and the two strings of the \<open>traffic_stop\<close> entry, in
  that order. The remaining premises say that the three arguments are records of the data
  model: the summary has a \<open>tone_summary\<close>, the situation a \<open>jurisdiction.primary\<close>, and
  the remedy is a dictionary. Under them the function returns.
\<close>

theorem high_urgency_high_risk_traffic_stop:
  assumes "subscript situation (str_of ''urgency'') = Inr urgency"
    and "subscript urgency (str_of ''level'') = Inr (PStr (str_of ''high''))"
    and "subscript legal_summary (str_of ''risk_level'') = Inr (PStr (str_of ''HIGH''))"
    and "subscript situation (str_of ''type'') = Inr (PStr (str_of ''traffic_stop''))"
    and "py_get remedy (str_of ''contradictions'') PNone = Inr c"
    and "subscript legal_summary (str_of ''tone_summary'') = Inr t"
    and "subscript situation (str_of ''jurisdiction'') = Inr j"
    and "subscript j (str_of ''primary'') = Inr p"
  shows "\<exists>recs. generate_recommendations situation legal_summary remedy = Inr recs
      \<and> immediate_actions recs = map str_of
          [''URGENT: Time-sensitive situation detected'',
           ''Review all deadlines and timelines immediately'',
           ''Consider emergency legal consultation'',
           ''HIGH RISK: Seek immediate legal counsel'',
           ''Document all details of the encounter'',
           ''Preserve any evidence'']
      \<and> length (immediate_actions recs) = 6"
  using assms
  by (simp add: generate_recommendations_def Let_def in_situation_actions_def
      situation_actions_lookup_def situation_actions_def actions_get_def
      urgent_actions_def high_risk_action_def)

theorem high_urgency_high_risk_traffic_stop_witness:
  "\<exists>recs. generate_recommendations
       (PDict [(str_of ''type'', PStr (str_of ''traffic_stop'')),
               (str_of ''urgency'', PDict [(str_of ''level'', PStr (str_of ''high''))]),
               (str_of ''jurisdiction'', PDict [(str_of ''primary'', PStr (str_of ''state''))])])
       (PDict [(str_of ''risk_level'', PStr (str_of ''HIGH'')),
               (str_of ''tone_summary'', PStr (str_of ''negative''))])
       (PDict [(str_of ''legal_strategies'', PList [])]) = Inr recs
     \<and> immediate_actions recs = map str_of
          [''URGENT: Time-sensitive situation detected'',
           ''Review all deadlines and timelines immediately'',
           ''Consider emergency legal consultation'',
           ''HIGH RISK: Seek immediate legal counsel'',
           ''Document all details of the encounter'',
           ''Preserve any evidence'']
     \<and> length (immediate_actions recs) = 6"
  using high_urgency_high_risk_traffic_stop
    [of "PDict [(str_of ''type'', PStr (str_of ''traffic_stop'')),
                (str_of ''urgency'', PDict [(str_of ''level'', PStr (str_of ''high''))]),
                (str_of ''jurisdiction'', PDict [(str_of ''primary'', PStr (str_of ''state''))])]"
        "PDict [(str_of ''level'', PStr (str_of ''high''))]"
        "PDict [(str_of ''risk_level'', PStr (str_of ''HIGH'')),
                (str_of ''tone_summary'', PStr (str_of ''negative''))]"
        "PDict [(str_of ''legal_strategies'', PList [])]"
        PNone "PStr (str_of ''negative'')"
        "PDict [(str_of ''primary'', PStr (str_of ''state''))]" "PStr (str_of ''state'')"]
  by simp

text \<open>
  C4. Take two inputs of the derivation that agree on the summary's \<open>risk_level\<close> and
  \<open>tone_summary\<close>, on the remedy's \<open>contradictions\<close>, and on the situation's \<open>type\<close>
  and \<open>jurisdiction\<close>, the first with \<open>urgency.level = "high"\<close> and the second with
  \<open>"low"\<close>. Then the first result is the second with the three urgency strings put in front
  of \<open>immediate_actions\<close>, and nothing else changed; if the second call raises, the first
  raises the same exception.
\<close>

theorem urgency_toggle_only_adds_urgent_actions:
  assumes "subscript s1 (str_of ''urgency'') = Inr u1"
    and "subscript u1 (str_of ''level'') = Inr (PStr (str_of ''high''))"
    and "subscript s2 (str_of ''urgency'') = Inr u2"
    and "subscript u2 (str_of ''level'') = Inr (PStr (str_of ''low''))"
    and "subscript l1 (str_of ''risk_level'') = subscript l2 (str_of ''risk_level'')"
    and "py_get r1 (str_of ''contradictions'') PNone = py_get r2 (str_of ''contradictions'') PNone"
    and "subscript s1 (str_of ''type'') = subscript s2 (str_of ''type'')"
    and "subscript l1 (str_of ''tone_summary'') = subscript l2 (str_of ''tone_summary'')"
    and "subscript s1 (str_of ''jurisdiction'') = subscript s2 (str_of ''jurisdiction'')"
  shows "generate_recommendations s1 l1 r1 =
         map_sum id (\<lambda>recs. recs\<lparr>immediate_actions :=
              map str_of [''URGENT: Time-sensitive situation detected'',
                  ''Review all deadlines and timelines immediately'',
                  ''Consider emergency legal consultation''] @ immediate_actions recs\<rparr>)
           (generate_recommendations s2 l2 r2)"
  unfolding generate_recommendations_closed_form assms bind_e_Inr map_sum_bind_e if_distrib [of "map_sum id f" for f]
  by (intro bind_e_cong if_cong refl)
     (simp_all add: derived_recommendations_def urgent_actions_def)

theorem urgency_toggle_only_adds_urgent_actions_witness:
  "generate_recommendations
       (PDict [(str_of ''type'', PStr (str_of ''fee_demand'')),
               (str_of ''urgency'', PDict [(str_of ''level'', PStr (str_of ''high''))]),
               (str_of ''jurisdiction'', PDict [(str_of ''primary'', PStr (str_of ''commercial''))])])
       (PDict [(str_of ''risk_level'', PStr (str_of ''HIGH'')),
               (str_of ''tone_summary'', PStr (str_of ''positive''))])
       (PDict [(str_of ''contradictions'', PList [PStr (str_of ''clause 2 against clause 5'')])])
   = map_sum id (\<lambda>recs. recs\<lparr>immediate_actions :=
              map str_of [''URGENT: Time-sensitive situation detected'',
                  ''Review all deadlines and timelines immediately'',
                  ''Consider emergency legal consultation''] @ immediate_actions recs\<rparr>)
       (generate_recommendations
          (PDict [(str_of ''type'', PStr (str_of ''fee_demand'')),
               (str_of ''urgency'', PDict [(str_of ''level'', PStr (str_of ''low''))]),
               (str_of ''jurisdiction'', PDict [(str_of ''primary'', PStr (str_of ''commercial''))])])
          (PDict [(str_of ''risk_level'', PStr (str_of ''HIGH'')),
               (str_of ''tone_summary'', PStr (str_of ''positive''))])
          (PDict [(str_of ''contradictions'', PList [PStr (str_of ''clause 2 against clause 5'')])]))"
  by (rule urgency_toggle_only_adds_urgent_actions
        [where ?u1.0 = "PDict [(str_of ''level'', PStr (str_of ''high''))]"
           and ?u2.0 = "PDict [(str_of ''level'', PStr (str_of ''low''))]"])
     simp_all

text \<open>
  C5. For a situation of type \<open>fee_demand\<close> whose arguments have the fields of the data
  model, the derivation returns, and \<open>immediate_actions\<close> is: the three urgency strings if
  \<open>urgency.level\<close> is \<open>"high"\<close>, then the risk string if \<open>risk_level\<close> is \<open>"HIGH"\<close>, then
  the two strings of the \<open>fee_demand\<close> entry, in the order of the table.
\<close>

theorem fee_demand_immediate_actions:
  assumes "subscript situation (str_of ''type'') = Inr (PStr (str_of ''fee_demand''))"
    and "subscript situation (str_of ''urgency'') = Inr urgency"
    and "subscript urgency (str_of ''level'') = Inr level"
    and "subscript legal_summary (str_of ''risk_level'') = Inr risk_level"
    and "py_get remedy (str_of ''contradictions'') PNone = Inr c"
    and "subscript legal_summary (str_of ''tone_summary'') = Inr t"
    and "subscript situation (str_of ''jurisdiction'') = Inr j"
    and "subscript j (str_of ''primary'') = Inr p"
  shows "\<exists>recs. generate_recommendations situation legal_summary remedy = Inr recs
      \<and> immediate_actions recs =
          (if level = PStr (str_of ''high'')
           then map str_of [''URGENT: Time-sensitive situation detected'',
                  ''Review all deadlines and timelines immediately'',
                  ''Consider emergency legal consultation'']
           else [])
          @ (if risk_level = PStr (str_of ''HIGH'')
             then [str_of ''HIGH RISK: Seek immediate legal counsel''] else [])
          @ map str_of [''Do not pay without challenging authority'', ''Request fee schedule'']"
  by (simp add: generate_recommendations_closed_form assms derived_recommendations_def
      table_actions_def situation_actions_def actions_get_def urgent_actions_def
      high_risk_action_def)

theorem fee_demand_immediate_actions_witness:
  "\<exists>recs. generate_recommendations
       (PDict [(str_of ''type'', PStr (str_of ''fee_demand'')),
               (str_of ''urgency'', PDict [(str_of ''level'', PStr (str_of ''low''))]),
               (str_of ''jurisdiction'', PDict [(str_of ''primary'', PStr (str_of ''commercial''))])])
       (PDict [(str_of ''risk_level'', PStr (str_of ''HIGH'')),
               (str_of ''tone_summary'', PStr (str_of ''positive''))])
       (PDict [(str_of ''contradictions'', PList [PStr (str_of ''clause 2 against clause 5'')])]) = Inr recs
     \<and> immediate_actions recs =
          map str_of [''HIGH RISK: Seek immediate legal counsel'',
            ''Do not pay without challenging authority'', ''Request fee schedule'']"
  using fee_demand_immediate_actions
    [of "(PDict [(str_of ''type'', PStr (str_of ''fee_demand'')),
               (str_of ''urgency'', PDict [(str_of ''level'', PStr (str_of ''low''))]),
               (str_of ''jurisdiction'', PDict [(str_of ''primary'', PStr (str_of ''commercial''))])])"
        "PDict [(str_of ''level'', PStr (str_of ''low''))]" "PStr (str_of ''low'')"
        "(PDict [(str_of ''risk_level'', PStr (str_of ''HIGH'')),
               (str_of ''tone_summary'', PStr (str_of ''positive''))])" "PStr (str_of ''HIGH'')"
        "(PDict [(str_of ''contradictions'', PList [PStr (str_of ''clause 2 against clause 5'')])])" "PList [PStr (str_of ''clause 2 against clause 5'')]"
        "PStr (str_of ''positive'')"
        "PDict [(str_of ''primary'', PStr (str_of ''commercial''))]" "PStr (str_of ''commercial'')"]
  by simp

text \<open>
  C9. When the derivation returns, its \<open>warnings\<close> list is non-empty exactly if the
  summary's \<open>risk_level\<close> is \<open>"HIGH"\<close>, and then it is the one-element list with the
  high-risk warning.
\<close>

theorem warnings_iff_high_risk:
  assumes "generate_recommendations situation legal_summary remedy = Inr recs"
  shows "(warnings recs \<noteq> [] \<longleftrightarrow>
            subscript legal_summary (str_of ''risk_level'') = Inr (PStr (str_of ''HIGH'')))
       \<and> (warnings recs \<noteq> [] \<longrightarrow>
            warnings recs = [str_of ''Situation contains high-risk legal elements''])"
  using assms
  by (elim generate_recommendations_Inr)
     (simp add: derived_recommendations_def high_risk_warning_def)

theorem warnings_iff_high_risk_witness:
  "generate_recommendations
       (PDict [(str_of ''type'', PStr (str_of ''fee_demand'')),
               (str_of ''urgency'', PDict [(str_of ''level'', PStr (str_of ''low''))]),
               (str_of ''jurisdiction'', PDict [(str_of ''primary'', PStr (str_of ''commercial''))])])
       (PDict [(str_of ''risk_level'', PStr (str_of ''HIGH'')),
               (str_of ''tone_summary'', PStr (str_of ''positive''))])
       (PDict [(str_of ''contradictions'', PList [PStr (str_of ''clause 2 against clause 5'')])])
     = Inr \<lparr>immediate_actions = map str_of [''HIGH RISK: Seek immediate legal counsel'',
               ''Do not pay without challenging authority'', ''Request fee schedule''],
            short_term_actions = map str_of [''Challenge contradictory provisions in documents'',
               ''Challenge lawful authority for fee'', ''Demand due process hearing''],
            long_term_actions = map str_of [''File administrative appeal'',
               ''Consider legal action if rights violated''],
            warnings = [str_of ''Situation contains high-risk legal elements''],
            opportunities = map str_of
              [''Document contains favorable language - preserve these terms'',
               ''Commercial jurisdiction may provide UCC protections'']\<rparr>
   \<and> subscript (PDict [(str_of ''risk_level'', PStr (str_of ''HIGH'')),
               (str_of ''tone_summary'', PStr (str_of ''positive''))]) (str_of ''risk_level'') = Inr (PStr (str_of ''HIGH''))"
proof -
  have run: "generate_recommendations
       (PDict [(str_of ''type'', PStr (str_of ''fee_demand'')),
               (str_of ''urgency'', PDict [(str_of ''level'', PStr (str_of ''low''))]),
               (str_of ''jurisdiction'', PDict [(str_of ''primary'', PStr (str_of ''commercial''))])])
       (PDict [(str_of ''risk_level'', PStr (str_of ''HIGH'')),
               (str_of ''tone_summary'', PStr (str_of ''positive''))])
       (PDict [(str_of ''contradictions'', PList [PStr (str_of ''clause 2 against clause 5'')])])
     = Inr \<lparr>immediate_actions = map str_of [''HIGH RISK: Seek immediate legal counsel'',
               ''Do not pay without challenging authority'', ''Request fee schedule''],
            short_term_actions = map str_of [''Challenge contradictory provisions in documents'',
               ''Challenge lawful authority for fee'', ''Demand due process hearing''],
            long_term_actions = map str_of [''File administrative appeal'',
               ''Consider legal action if rights violated''],
            warnings = [str_of ''Situation contains high-risk legal elements''],
            opportunities = map str_of
              [''Document contains favorable language - preserve these terms'',
               ''Commercial jurisdiction may provide UCC protections'']\<rparr>"
    by (simp add: generate_recommendations_closed_form derived_recommendations_def
        table_actions_def situation_actions_def actions_get_def urgent_actions_def
        high_risk_action_def high_risk_warning_def)
  from warnings_iff_high_risk [OF run] run show ?thesis
    by simp
qed

section \<open>Recommendation derivation does not change its arguments\<close>

lemma length_rec_heap [simp]: "length (rec_heap h R) = length h + 6"
  by (simp add: rec_heap_def)

lemma rec_heap_nth_old [simp]: "a < length h \<Longrightarrow> rec_heap h R ! a = h ! a"
  by (simp add: rec_heap_def nth_append)

lemma take_rec_heap [simp]: "take (length h) (rec_heap h R) = h"
  by (simp add: rec_heap_def)

lemma holds_in_heap: "holds h (HRef a) p \<Longrightarrow> a < length h"
  by (erule holds.cases) simp_all

lemma holds_str_eq: "holds h v p \<Longrightarrow> (v = HStr s) = (p = PStr s)"
  by (erule holds.cases) simp_all

lemma holds_hashable: "holds h v p \<Longrightarrow> h_hashable v = hashable p"
  by (erule holds.cases) (simp_all add: h_hashable_def)

lemma holds_truthy: "holds h v p \<Longrightarrow> h_truthy h v = truthy p"
  by (erule holds.cases) (auto simp: h_truthy_def dest: list_all2_lengthD)

lemma map_of_related:
  "map fst kvs = map fst pkvs \<Longrightarrow> list_all2 P (map snd kvs) (map snd pkvs)
     \<Longrightarrow> rel_option P (map_of kvs k) (map_of pkvs k)"
proof (induction kvs arbitrary: pkvs)
  case Nil
  then show ?case by simp
next
  case (Cons kv kvs)
  then obtain pkv pkvs' where "pkvs = pkv # pkvs'" by (cases pkvs) auto
  with Cons show ?case by (cases kv; cases pkv) auto
qed

lemma holds_subscript:
  assumes "holds h v p"
  shows "case subscript p k of
           Inl e \<Rightarrow> h_subscript h v k = Inl e
         | Inr p' \<Rightarrow> \<exists>v'. h_subscript h v k = Inr v' \<and> holds h v' p'"
  using assms
proof cases
  case (holds_Dict a kvs pkvs)
  from map_of_related [OF holds_Dict(5,6), of k] holds_Dict(1-4)
  show ?thesis
    by (cases "map_of kvs k"; cases "map_of pkvs k") (simp_all add: h_subscript_def)
qed (simp_all add: h_subscript_def)

lemma holds_get:
  assumes "holds h v p" and "holds h d pd"
  shows "case py_get p k pd of
           Inl e \<Rightarrow> h_get h v k d = Inl e
         | Inr p' \<Rightarrow> \<exists>v'. h_get h v k d = Inr v' \<and> holds h v' p'"
  using assms(1)
proof cases
  case (holds_Dict a kvs pkvs)
  from map_of_related [OF holds_Dict(5,6), of k] holds_Dict(1-4) assms(2)
  show ?thesis
    by (cases "map_of kvs k"; cases "map_of pkvs k") (simp_all add: h_get_def)
qed (simp_all add: h_get_def)

lemma h_subscript_rec_heap: "holds h v p \<Longrightarrow> h_subscript (rec_heap h R) v k = h_subscript h v k"
  by (erule holds.cases) (simp_all add: h_subscript_def)

lemma h_get_rec_heap: "holds h v p \<Longrightarrow> h_get (rec_heap h R) v k d = h_get h v k d"
  by (erule holds.cases) (simp_all add: h_get_def)

lemma h_truthy_rec_heap: "holds h v p \<Longrightarrow> h_truthy (rec_heap h R) v = h_truthy h v"
  by (erule holds.cases) (simp_all add: h_truthy_def)

lemma holds_append: "holds h v p \<Longrightarrow> holds (h @ ext) v p"
proof (induction rule: holds.induct)
  case (holds_List a vs ps)
  from holds_List(3) have "list_all2 (holds (h @ ext)) vs ps"
    by (rule list_all2_mono) simp
  with holds_List(1,2) show ?case
    by (intro holds.holds_List [where vs = vs]) (simp_all add: nth_append)
next
  case (holds_Dict a kvs pkvs)
  from holds_Dict(4) have "list_all2 (holds (h @ ext)) (map snd kvs) (map snd pkvs)"
    by (rule list_all2_mono) simp
  with holds_Dict(1-3) show ?case
    by (intro holds.holds_Dict [where kvs = kvs]) (simp_all add: nth_append)
qed (auto intro: holds.intros)

lemma holds_rec_heap: "holds h v p \<Longrightarrow> holds (rec_heap h R) v p"
  unfolding rec_heap_def by (rule holds_append)

lemma holds_strings: "list_all2 (holds h) (map HStr xs) (map PStr xs)"
  by (induction xs) (auto intro: holds.intros)

lemma holds_result:
  "holds (rec_heap h R) (HRef (length h + 5)) (recommendations_dict R)"
  unfolding recommendations_dict_def
  by (rule holds_Dict [where kvs = "[(str_of ''immediate_actions'', HRef (length h)),
                 (str_of ''short_term_actions'', HRef (length h + 1)),
                 (str_of ''long_term_actions'', HRef (length h + 2)),
                 (str_of ''warnings'', HRef (length h + 3)),
                 (str_of ''opportunities'', HRef (length h + 4))]"])
     (auto simp: rec_heap_def nth_append intro!: holds_List holds_strings)

lemma new_recommendations_heap:
  "new_recommendations h = (Inr (HRef (length h + 5)),
     rec_heap h \<lparr>immediate_actions = [], short_term_actions = [], long_term_actions = [],
                 warnings = [], opportunities = []\<rparr>)"
  by (simp add: new_recommendations_def bind_io_def st_alloc_def rec_heap_def)

lemma extend_immediate:
  "extend_field (HRef (length h + 5)) (str_of ''immediate_actions'') items (rec_heap h R)
     = (Inr (), rec_heap h (R\<lparr>immediate_actions := immediate_actions R @ items\<rparr>))"
  by (simp add: extend_field_def bind_io_def st_read_def st_extend_def h_subscript_def
      rec_heap_def nth_append list_update_append)

lemma extend_short_term:
  "extend_field (HRef (length h + 5)) (str_of ''short_term_actions'') items (rec_heap h R)
     = (Inr (), rec_heap h (R\<lparr>short_term_actions := short_term_actions R @ items\<rparr>))"
  by (simp add: extend_field_def bind_io_def st_read_def st_extend_def h_subscript_def
      rec_heap_def nth_append list_update_append)

lemma extend_long_term:
  "extend_field (HRef (length h + 5)) (str_of ''long_term_actions'') items (rec_heap h R)
     = (Inr (), rec_heap h (R\<lparr>long_term_actions := long_term_actions R @ items\<rparr>))"
  by (simp add: extend_field_def bind_io_def st_read_def st_extend_def h_subscript_def
      rec_heap_def nth_append list_update_append)

lemma extend_warnings:
  "extend_field (HRef (length h + 5)) (str_of ''warnings'') items (rec_heap h R)
     = (Inr (), rec_heap h (R\<lparr>warnings := warnings R @ items\<rparr>))"
  by (simp add: extend_field_def bind_io_def st_read_def st_extend_def h_subscript_def
      rec_heap_def nth_append list_update_append)

lemma extend_opportunities:
  "extend_field (HRef (length h + 5)) (str_of ''opportunities'') items (rec_heap h R)
     = (Inr (), rec_heap h (R\<lparr>opportunities := opportunities R @ items\<rparr>))"
  by (simp add: extend_field_def bind_io_def st_read_def st_extend_def h_subscript_def
      rec_heap_def nth_append list_update_append)

lemmas extend_rec_heap = extend_immediate extend_short_term extend_long_term extend_warnings
  extend_opportunities

lemma refines_new:
  assumes "refines h \<lparr>immediate_actions = [], short_term_actions = [], long_term_actions = [],
                 warnings = [], opportunities = []\<rparr> (f (HRef (length h + 5))) x"
  shows "matches h (bind_io new_recommendations f h) x"
  using assms by (simp add: refines_def bind_io_def new_recommendations_heap)

lemma refines_read:
  assumes "holds h v p"
    and "\<And>v' p'. holds h v' p' \<Longrightarrow> h_subscript h v k = Inr v' \<Longrightarrow> refines h R (f v') (g p')"
  shows "refines h R (bind_io (st_read (\<lambda>h'. h_subscript h' v k)) f) (bind_e (subscript p k) g)"
proof (cases "subscript p k")
  case (Inl e)
  with holds_subscript [OF assms(1), of k] show ?thesis
    by (auto simp add: refines_def bind_io_def st_read_def h_subscript_rec_heap [OF assms(1)])
next
  case (Inr p')
  with holds_subscript [OF assms(1), of k] obtain v' where
    v': "h_subscript h v k = Inr v'" "holds h v' p'" by auto
  from assms(2) [OF v'(2) v'(1)] show ?thesis
    by (simp add: refines_def bind_io_def st_read_def h_subscript_rec_heap [OF assms(1)] v' Inr)
qed

lemma refines_get:
  assumes "holds h v p" and "holds h d pd"
    and "\<And>v' p'. holds h v' p' \<Longrightarrow> refines h R (f v') (g p')"
  shows "refines h R (bind_io (st_read (\<lambda>h'. h_get h' v k d)) f) (bind_e (py_get p k pd) g)"
proof (cases "py_get p k pd")
  case (Inl e)
  with holds_get [OF assms(1,2), of k] show ?thesis
    by (auto simp add: refines_def bind_io_def st_read_def h_get_rec_heap [OF assms(1)])
next
  case (Inr p')
  with holds_get [OF assms(1,2), of k] obtain v' where
    v': "h_get h v k d = Inr v'" "holds h v' p'" by auto
  from assms(3) [OF v'(2)] show ?thesis
    by (simp add: refines_def bind_io_def st_read_def h_get_rec_heap [OF assms(1)] v' Inr)
qed

lemma refines_truthy:
  assumes "holds h v p" and "refines h R (f (truthy p)) x"
  shows "refines h R (bind_io (st_read (\<lambda>h'. Inr (h_truthy h' v))) f) x"
  using assms(2)
  by (simp add: refines_def bind_io_def st_read_def h_truthy_rec_heap [OF assms(1)]
      holds_truthy [OF assms(1)])

lemma refines_update:
  assumes "\<And>R. m (rec_heap h R) = (Inr (), rec_heap h (u R))"
    and "refines h (if c then u R else R) (f ()) x"
  shows "refines h R (bind_io (if c then m else return_io ()) f) x"
  using assms(2) by (cases c) (simp_all add: refines_def bind_io_def assms(1) return_io_def)

lemma extend_risk:
  "bind_io (extend_field (HRef (length h + 5)) (str_of ''immediate_actions'') xs)
     (\<lambda>_. extend_field (HRef (length h + 5)) (str_of ''warnings'') ys) (rec_heap h R)
   = (Inr (), rec_heap h (R\<lparr>immediate_actions := immediate_actions R @ xs,
                              warnings := warnings R @ ys\<rparr>))"
  by (simp add: bind_io_def extend_rec_heap)

lemma refines_immediate:
  assumes "refines h (if c then R\<lparr>immediate_actions := immediate_actions R @ items\<rparr> else R)
             (f ()) x"
  shows "refines h R (bind_io (if c then extend_field (HRef (length h + 5))
                                    (str_of ''immediate_actions'') items
                               else return_io ()) f) x"
  by (rule refines_update
        [where u = "\<lambda>R. R\<lparr>immediate_actions := immediate_actions R @ items\<rparr>"])
     (rule extend_immediate, rule assms)

lemma refines_short_term:
  assumes "refines h (if c then R\<lparr>short_term_actions := short_term_actions R @ items\<rparr> else R)
             (f ()) x"
  shows "refines h R (bind_io (if c then extend_field (HRef (length h + 5))
                                    (str_of ''short_term_actions'') items
                               else return_io ()) f) x"
  by (rule refines_update
        [where u = "\<lambda>R. R\<lparr>short_term_actions := short_term_actions R @ items\<rparr>"])
     (rule extend_short_term, rule assms)

lemma refines_opportunities:
  assumes "refines h (if c then R\<lparr>opportunities := opportunities R @ items\<rparr> else R)
             (f ()) x"
  shows "refines h R (bind_io (if c then extend_field (HRef (length h + 5))
                                    (str_of ''opportunities'') items
                               else return_io ()) f) x"
  by (rule refines_update
        [where u = "\<lambda>R. R\<lparr>opportunities := opportunities R @ items\<rparr>"])
     (rule extend_opportunities, rule assms)

lemma refines_risk:
  assumes "refines h (if c then R\<lparr>immediate_actions := immediate_actions R @ xs,
                                   warnings := warnings R @ ys\<rparr> else R)
             (f ()) x"
  shows "refines h R
           (bind_io (if c then bind_io (extend_field (HRef (length h + 5))
                                          (str_of ''immediate_actions'') xs)
                                 (\<lambda>_. extend_field (HRef (length h + 5)) (str_of ''warnings'') ys)
                     else return_io ()) f) x"
  by (rule refines_update
        [where u = "\<lambda>R. R\<lparr>immediate_actions := immediate_actions R @ xs,
                              warnings := warnings R @ ys\<rparr>"])
     (rule extend_risk, rule assms)

lemma refines_type:
  assumes t: "holds h t pt"
    and reread: "\<And>R'. h_subscript (rec_heap h R') s (str_of ''type'') = Inr t"
    and rest: "hashable pt \<Longrightarrow>
       refines h (R\<lparr>immediate_actions := immediate_actions R
                       @ table_actions pt (str_of ''immediate''),
                    short_term_actions := short_term_actions R
                       @ table_actions pt (str_of ''short_term''),
                    long_term_actions := long_term_actions R
                       @ table_actions pt (str_of ''long_term'')\<rparr>) (f ()) x"
  shows "refines h R
     (bind_io (lift_e (h_in_situation_actions t)) (\<lambda>known.
      bind_io (if known
              then bind_io (st_read (\<lambda>h. h_subscript h s (str_of ''type''))) (\<lambda>type'.
                   bind_io (lift_e (h_situation_actions_lookup type')) (\<lambda>actions.
                   bind_io (extend_field (HRef (length h + 5)) (str_of ''immediate_actions'')
                              (actions_get actions (str_of ''immediate''))) (\<lambda>_.
                   bind_io (extend_field (HRef (length h + 5)) (str_of ''short_term_actions'')
                              (actions_get actions (str_of ''short_term''))) (\<lambda>_.
                   extend_field (HRef (length h + 5)) (str_of ''long_term_actions'')
                     (actions_get actions (str_of ''long_term''))))))
              else return_io ()) f))
     (if \<not> hashable pt then Inl TypeError else x)"
proof (cases "hashable pt")
  case False
  with holds_hashable [OF t] show ?thesis
    by (auto simp add: refines_def bind_io_def lift_e_def h_in_situation_actions_def)
next
  case True
  note hh = holds_hashable [OF t]
  show ?thesis
  proof (cases pt)
    case (PStr sname)
    with holds_str_eq [OF t, of sname] have ts: "t = HStr sname" by simp
    show ?thesis
    proof (cases "map_of situation_actions sname")
      case None
      then have "sname \<notin> set (map fst situation_actions)"
        by (simp add: map_of_eq_None_iff)
      with rest [OF True] None show ?thesis
        by (simp add: refines_def bind_io_def lift_e_def h_in_situation_actions_def ts PStr
            h_hashable_def table_actions_def return_io_def del: set_map)
    next
      case (Some actions)
      then have "sname \<in> set (map fst situation_actions)"
        by (metis map_of_eq_None_iff option.distinct(1) set_map)
      with rest [OF True] Some show ?thesis
        by (simp add: refines_def bind_io_def lift_e_def h_in_situation_actions_def ts PStr
            h_hashable_def table_actions_def return_io_def st_read_def reread
            h_situation_actions_lookup_def extend_rec_heap del: set_map)
    qed
  next
    case PNone
    with t have "t = HNone" by (auto elim: holds.cases)
    with rest [OF True] PNone show ?thesis
      by (simp add: refines_def bind_io_def lift_e_def h_in_situation_actions_def
          h_hashable_def table_actions_def return_io_def)
  next
    case (PBool b)
    with t have "t = HBool b" by (auto elim: holds.cases)
    with rest [OF True] PBool show ?thesis
      by (simp add: refines_def bind_io_def lift_e_def h_in_situation_actions_def
          h_hashable_def table_actions_def return_io_def)
  next
    case (PInt i)
    with t have "t = HInt i" by (auto elim: holds.cases)
    with rest [OF True] PInt show ?thesis
      by (simp add: refines_def bind_io_def lift_e_def h_in_situation_actions_def
          h_hashable_def table_actions_def return_io_def)
  qed (use True in simp_all)
qed

lemma store_refines:
  assumes s: "holds h situation ps" and l: "holds h legal_summary pl" and r: "holds h remedy pr"
  shows "matches h (generate_recommendations_store situation legal_summary remedy h)
           (generate_recommendations ps pl pr)"
  unfolding generate_recommendations_store_def generate_recommendations_closed_form
  apply (rule refines_new)
  apply (rule refines_read [OF s])
  subgoal premises u for urgency purgency
    apply (rule refines_read [OF u(1)])
    subgoal premises lv for level plevel
      apply (rule refines_immediate)
      apply (rule refines_read [OF l])
      subgoal premises rk for risk prisk
        apply (rule refines_risk)
        apply (rule refines_get [OF r holds_None])
        subgoal premises cn for c pc
          apply (rule refines_truthy [OF cn(1)])
          apply (rule refines_short_term)
          apply (rule refines_read [OF s])
          subgoal premises ty for t pt
            apply (rule refines_type [OF ty(1)])
             apply (simp add: h_subscript_rec_heap [OF s] ty(2))
            apply (rule refines_read [OF l])
            subgoal premises tn for tone ptone
              apply (rule refines_opportunities)
              apply (rule refines_read [OF s])
              subgoal premises jr for j pj
                apply (rule refines_read [OF jr(1)])
                subgoal premises pm for primary pprimary
                  apply (rule refines_opportunities)
                  apply (simp add: refines_def return_io_def derived_recommendations_def
                      holds_str_eq [OF lv(1)] holds_str_eq [OF rk(1)] holds_str_eq [OF tn(2)]
                      holds_str_eq [OF pm(1)])
                  done
                done
              done
            done
          done
        done
      done
    done
  done

text \<open>
  C3. Take two calls of the derivation, in any two stores, on arguments that hold the same
  situation, legal summary and remedy. Each call leaves every object that was in its store
  before the call as it was, so the three arguments still hold the same data afterwards:
  the function writes only to the six objects it has created. The outcome of both calls is
  the outcome of \<open>generate_recommendations\<close> on the data of the arguments: either both
  raise the same exception, or both return a dictionary that holds the same recommendation
  set, with every list in the same order. The store is the only state of the computation;
  it reads and writes nothing else.
\<close>

theorem recommendation_derivation_is_pure:
  assumes "holds h1 situation1 ps" and "holds h1 legal_summary1 pl" and "holds h1 remedy1 pr"
    and "holds h2 situation2 ps" and "holds h2 legal_summary2 pl" and "holds h2 remedy2 pr"
    and run1: "generate_recommendations_store situation1 legal_summary1 remedy1 h1 = (res1, h1')"
    and run2: "generate_recommendations_store situation2 legal_summary2 remedy2 h2 = (res2, h2')"
  shows "take (length h1) h1' = h1
     \<and> holds h1' situation1 ps \<and> holds h1' legal_summary1 pl \<and> holds h1' remedy1 pr
     \<and> (case generate_recommendations ps pl pr of
          Inl e \<Rightarrow> res1 = Inl e \<and> res2 = Inl e
        | Inr recs \<Rightarrow>
            (\<exists>v1 v2. res1 = Inr v1 \<and> res2 = Inr v2
               \<and> holds h1' v1 (recommendations_dict recs)
               \<and> holds h2' v2 (recommendations_dict recs)))"
proof -
  from store_refines [OF assms(1-3)] run1
  have m1: "matches h1 (res1, h1') (generate_recommendations ps pl pr)" by simp
  from store_refines [OF assms(4-6)] run2
  have m2: "matches h2 (res2, h2') (generate_recommendations ps pl pr)" by simp
  from m1 obtain R1 where h1': "h1' = rec_heap h1 R1"
    by (cases "generate_recommendations ps pl pr") auto
  have frame: "take (length h1) h1' = h1
     \<and> holds h1' situation1 ps \<and> holds h1' legal_summary1 pl \<and> holds h1' remedy1 pr"
    using assms(1-3) by (simp add: h1' holds_rec_heap)
  have outcome: "case generate_recommendations ps pl pr of
          Inl e \<Rightarrow> res1 = Inl e \<and> res2 = Inl e
        | Inr recs \<Rightarrow>
            (\<exists>v1 v2. res1 = Inr v1 \<and> res2 = Inr v2
               \<and> holds h1' v1 (recommendations_dict recs)
               \<and> holds h2' v2 (recommendations_dict recs))"
  proof (cases "generate_recommendations ps pl pr")
    case (Inl e)
    with m1 m2 show ?thesis by simp
  next
    case (Inr recs)
    with m1 m2 show ?thesis by (simp add: holds_result)
  qed
  from frame outcome show ?thesis by blast
qed

theorem recommendation_derivation_is_pure_witness:
  "\<exists>res1 h1' res2 h2' v1 v2.
      generate_recommendations_store (HRef 2) (HRef 3) (HRef 5) demo_heap = (res1, h1')
    \<and> generate_recommendations_store (HRef 6) (HRef 2) (HRef 1) demo_heap' = (res2, h2')
    \<and> take (length demo_heap) h1' = demo_heap
    \<and> res1 = Inr v1 \<and> res2 = Inr v2
    \<and> holds h1' v1 (recommendations_dict
          \<lparr>immediate_actions = map str_of
              [''URGENT: Time-sensitive situation detected'',
               ''Review all deadlines and timelines immediately'',
               ''Consider emergency legal consultation'',
               ''HIGH RISK: Seek immediate legal counsel'',
               ''Do not pay without challenging authority'', ''Request fee schedule''],
            short_term_actions = map str_of
              [''Challenge contradictory provisions in documents'',
               ''Challenge lawful authority for fee'', ''Demand due process hearing''],
            long_term_actions = map str_of
              [''File administrative appeal'', ''Consider legal action if rights violated''],
            warnings = [str_of ''Situation contains high-risk legal elements''],
            opportunities = [str_of ''Commercial jurisdiction may provide UCC protections'']\<rparr>)
    \<and> holds h2' v2 (recommendations_dict
          \<lparr>immediate_actions = map str_of
              [''URGENT: Time-sensitive situation detected'',
               ''Review all deadlines and timelines immediately'',
               ''Consider emergency legal consultation'',
               ''HIGH RISK: Seek immediate legal counsel'',
               ''Do not pay without challenging authority'', ''Request fee schedule''],
            short_term_actions = map str_of
              [''Challenge contradictory provisions in documents'',
               ''Challenge lawful authority for fee'', ''Demand due process hearing''],
            long_term_actions = map str_of
              [''File administrative appeal'', ''Consider legal action if rights violated''],
            warnings = [str_of ''Situation contains high-risk legal elements''],
            opportunities = [str_of ''Commercial jurisdiction may provide UCC protections'']\<rparr>)"
proof -
  have s1: "holds demo_heap (HRef 2)
     (PDict [(str_of ''type'', PStr (str_of ''fee_demand'')),
             (str_of ''urgency'', PDict [(str_of ''level'', PStr (str_of ''high''))]),
             (str_of ''jurisdiction'', PDict [(str_of ''primary'', PStr (str_of ''commercial''))])])"
    by (rule holds.intros conjI | simp add: demo_heap_def)+
  have l1: "holds demo_heap (HRef 3)
     (PDict [(str_of ''risk_level'', PStr (str_of ''HIGH'')),
             (str_of ''tone_summary'', PStr (str_of ''neutral''))])"
    by (rule holds.intros conjI | simp add: demo_heap_def)+
  have r1: "holds demo_heap (HRef 5)
     (PDict [(str_of ''contradictions'', PList [PStr (str_of ''A against B'')])])"
    by (rule holds.intros conjI | simp add: demo_heap_def)+
  have s2: "holds demo_heap' (HRef 6)
     (PDict [(str_of ''type'', PStr (str_of ''fee_demand'')),
             (str_of ''urgency'', PDict [(str_of ''level'', PStr (str_of ''high''))]),
             (str_of ''jurisdiction'', PDict [(str_of ''primary'', PStr (str_of ''commercial''))])])"
    by (rule holds.intros conjI | simp add: demo_heap'_def)+
  have l2: "holds demo_heap' (HRef 2)
     (PDict [(str_of ''risk_level'', PStr (str_of ''HIGH'')),
             (str_of ''tone_summary'', PStr (str_of ''neutral''))])"
    by (rule holds.intros conjI | simp add: demo_heap'_def)+
  have r2: "holds demo_heap' (HRef 1)
     (PDict [(str_of ''contradictions'', PList [PStr (str_of ''A against B'')])])"
    by (rule holds.intros conjI | simp add: demo_heap'_def)+
  obtain res1 h1' where run1:
    "generate_recommendations_store (HRef 2) (HRef 3) (HRef 5) demo_heap = (res1, h1')"
    by (rule prod.exhaust)
  obtain res2 h2' where run2:
    "generate_recommendations_store (HRef 6) (HRef 2) (HRef 1) demo_heap' = (res2, h2')"
    by (rule prod.exhaust)
  have outcome: "generate_recommendations
     (PDict [(str_of ''type'', PStr (str_of ''fee_demand'')),
             (str_of ''urgency'', PDict [(str_of ''level'', PStr (str_of ''high''))]),
             (str_of ''jurisdiction'', PDict [(str_of ''primary'', PStr (str_of ''commercial''))])])
     (PDict [(str_of ''risk_level'', PStr (str_of ''HIGH'')),
             (str_of ''tone_summary'', PStr (str_of ''neutral''))])
     (PDict [(str_of ''contradictions'', PList [PStr (str_of ''A against B'')])])
     = Inr \<lparr>immediate_actions = map str_of
              [''URGENT: Time-sensitive situation detected'',
               ''Review all deadlines and timelines immediately'',
               ''Consider emergency legal consultation'',
               ''HIGH RISK: Seek immediate legal counsel'',
               ''Do not pay without challenging authority'', ''Request fee schedule''],
            short_term_actions = map str_of
              [''Challenge contradictory provisions in documents'',
               ''Challenge lawful authority for fee'', ''Demand due process hearing''],
            long_term_actions = map str_of
              [''File administrative appeal'', ''Consider legal action if rights violated''],
            warnings = [str_of ''Situation contains high-risk legal elements''],
            opportunities = [str_of ''Commercial jurisdiction may provide UCC protections'']\<rparr>"
    by (simp add: generate_recommendations_closed_form derived_recommendations_def
        table_actions_def situation_actions_def actions_get_def urgent_actions_def
        high_risk_action_def high_risk_warning_def)
  from recommendation_derivation_is_pure [OF s1 l1 r1 s2 l2 r2 run1 run2] run1 run2 show ?thesis
    unfolding outcome by auto
qed

section \<open>Properties of the analysis pipeline\<close>

lemma bind_io_eq_Inr:
  "bind_io m f w = (Inr y, w') \<longleftrightarrow> (\<exists>x w1. m w = (Inr x, w1) \<and> f x w1 = (Inr y, w'))"
  by (cases "m w") (auto simp: bind_io_def split: sum.splits)

lemma call_eq_Inr [simp]: "call m w = (Inr x, w') \<longleftrightarrow> m w = (Inr x, w')"
  by (cases "m w") (auto simp: call_def split: sum.splits)

lemma lift_e_eq_Inr: "lift_e m w = (Inr x, w') \<longleftrightarrow> m = Inr x \<and> w' = w"
  by (auto simp: lift_e_def)

lemma remedy_input_Inr:
  "remedy_input situation legal_summary contradictions tone_analysis = Inr request \<longleftrightarrow>
     (\<exists>type risk_level urgency jurisdiction legal_framework.
        subscript situation (str_of ''type'') = Inr type
      \<and> subscript legal_summary (str_of ''risk_level'') = Inr risk_level
      \<and> subscript situation (str_of ''urgency'') = Inr urgency
      \<and> subscript situation (str_of ''jurisdiction'') = Inr jurisdiction
      \<and> subscript situation (str_of ''legal_framework'') = Inr legal_framework
      \<and> request = PDict [(str_of ''type'', type),
                 (str_of ''risk_level'', risk_level),
                 (str_of ''contradictions'', contradictions),
                 (str_of ''tone_analysis'', tone_analysis),
                 (str_of ''urgency'', urgency),
                 (str_of ''jurisdiction'', jurisdiction),
                 (str_of ''legal_framework'', legal_framework)])"
  unfolding remedy_input_def bind_e_eq_Inr by auto

lemmas demo_defs = analyze_situation_def compile_results_def bind_io_def call_def lift_e_def
  return_io_def demo_collaborators_def demo_situation_def demo_summary_def remedy_input_def
  generate_recommendations_closed_form save_analysis_results_def save_failed_def Let_def

text \<open>
  C1. Every run of \<open>analyze_situation\<close> that returns has gone through the following
  calls, each one starting in the world that the one before it left: the situation is
  interpreted from the text and the context; the clauses are extracted from the text; the
  contradictions are detected from exactly these clauses; the legal structure, the tone and
  the risks are analysed from the text; the legal summary is generated from the text, the
  tone analysis and the risks; and the remedy is synthesized from the dictionary with the
  seven keys \<open>type\<close>, \<open>risk_level\<close>, \<open>contradictions\<close>, \<open>tone_analysis\<close>, \<open>urgency\<close>,
  \<open>jurisdiction\<close> and \<open>legal_framework\<close>, taken from the situation, the legal summary's
  risk level, the detected contradictions and the tone analysis. A provenance entry is
  logged before each step.
\<close>

theorem analysis_pipeline_order:
  assumes "analyze_situation C session_id input_text situation_context w0 = (Inr results, w_end)"
  shows "\<exists>w1 w2 w3 w4 w5 w6 w7 w8 w9 w10 w11 w12 w13 w14 w15 w16
          situation clauses contradictions legal_structure tone_analysis legal_risks
          legal_summary remedy type risk_level urgency jurisdiction legal_framework.
      log_provenance C actor (str_of ''Starting comprehensive situation analysis'') w0
        = (Inr (), w1)
    \<and> log_provenance C actor
        (str_of ''Step 1: Interpreting situation with SituationInterpreter'') w1 = (Inr (), w2)
    \<and> interpret_situation C input_text situation_context w2 = (Inr situation, w3)
    \<and> log_provenance C actor (str_of ''Step 2: Extracting clauses with JARVIS'') w3
        = (Inr (), w4)
    \<and> extract_clauses C input_text w4 = (Inr clauses, w5)
    \<and> log_provenance C actor (str_of ''Step 3: Detecting contradictions with JARVIS'') w5
        = (Inr (), w6)
    \<and> detect_contradictions C clauses w6 = (Inr contradictions, w7)
    \<and> log_provenance C actor (str_of ''Step 4: Analyzing legal structure with JARVIS'') w7
        = (Inr (), w8)
    \<and> analyze_legal_structure C input_text w8 = (Inr legal_structure, w9)
    \<and> log_provenance C actor (str_of ''Step 5: Analyzing tone and risks with FRIDAY'') w9
        = (Inr (), w10)
    \<and> interpret_tone C input_text w10 = (Inr tone_analysis, w11)
    \<and> analyze_legal_risk C input_text w11 = (Inr legal_risks, w12)
    \<and> log_provenance C actor (str_of ''Step 6: Generating legal summary with FRIDAY'') w12
        = (Inr (), w13)
    \<and> generate_legal_summary C input_text tone_analysis legal_risks w13
        = (Inr legal_summary, w14)
    \<and> log_provenance C actor (str_of ''Step 7: Synthesizing remedy'') w14 = (Inr (), w15)
    \<and> subscript situation (str_of ''type'') = Inr type
    \<and> subscript legal_summary (str_of ''risk_level'') = Inr risk_level
    \<and> subscript situation (str_of ''urgency'') = Inr urgency
    \<and> subscript situation (str_of ''jurisdiction'') = Inr jurisdiction
    \<and> subscript situation (str_of ''legal_framework'') = Inr legal_framework
    \<and> synthesize_remedy C
          (PDict [(str_of ''type'', type),
                  (str_of ''risk_level'', risk_level),
                  (str_of ''contradictions'', contradictions),
                  (str_of ''tone_analysis'', tone_analysis),
                  (str_of ''urgency'', urgency),
                  (str_of ''jurisdiction'', jurisdiction),
                  (str_of ''legal_framework'', legal_framework)]) w15
        = (Inr remedy, w16)"
proof -
  from assms obtain w_c where "compile_results C session_id input_text situation_context w0 = (Inr results, w_c)"
    unfolding analyze_situation_def bind_io_eq_Inr return_io_def by auto
  then show ?thesis
    unfolding compile_results_def bind_io_eq_Inr call_eq_Inr lift_e_eq_Inr remedy_input_Inr
    apply (elim exE conjE)
    apply hypsubst
    apply (intro exI conjI)
    apply (assumption | simp)+
    done
qed

theorem analysis_pipeline_order_witness:
  "\<exists>results.
      analyze_situation (demo_collaborators (Inr ())) (str_of ''20240101_120000'')
        (PStr (str_of ''You must pay the fee'')) PNone []
        = (Inr results,
         [Logged actor (str_of ''Starting comprehensive situation analysis''),
          Logged actor (str_of ''Step 1: Interpreting situation with SituationInterpreter''),
          Called ''interpret_situation'' [PStr (str_of ''You must pay the fee''), PNone],
          Logged actor (str_of ''Step 2: Extracting clauses with JARVIS''),
          Called ''extract_clauses'' [PStr (str_of ''You must pay the fee'')],
          Logged actor (str_of ''Step 3: Detecting contradictions with JARVIS''),
          Called ''detect_contradictions'' [PList [PStr (str_of ''clause A''), PStr (str_of ''clause B'')]],
          Logged actor (str_of ''Step 4: Analyzing legal structure with JARVIS''),
          Called ''analyze_legal_structure'' [PStr (str_of ''You must pay the fee'')],
          Logged actor (str_of ''Step 5: Analyzing tone and risks with FRIDAY''),
          Called ''interpret_tone'' [PStr (str_of ''You must pay the fee'')],
          Called ''analyze_legal_risk'' [PStr (str_of ''You must pay the fee'')],
          Logged actor (str_of ''Step 6: Generating legal summary with FRIDAY''),
          Called ''generate_legal_summary'' [PStr (str_of ''You must pay the fee''), PStr (str_of ''neutral''), PList []],
          Logged actor (str_of ''Step 7: Synthesizing remedy''),
          Called ''synthesize_remedy''
           [PDict [(str_of ''type'', PStr (str_of ''fee_demand'')),
                   (str_of ''risk_level'', PStr (str_of ''HIGH'')),
                   (str_of ''contradictions'', PList [PStr (str_of ''A against B'')]),
                   (str_of ''tone_analysis'', PStr (str_of ''neutral'')),
                   (str_of ''urgency'', PDict [(str_of ''level'', PStr (str_of ''low''))]),
                   (str_of ''jurisdiction'',
                      PDict [(str_of ''primary'', PStr (str_of ''commercial'')),
                             (str_of ''secondary'', PList [])]),
                   (str_of ''legal_framework'', PStr (str_of ''UCC''))]],
          Called ''now'' [],
          Dumped (str_of ''output/verobrix_analysis_20240101_120000.json''),
          Logged actor (str_of ''Analysis results saved to output/verobrix_analysis_20240101_120000.json''),
          Logged actor (str_of ''Comprehensive analysis completed'')])
    \<and> (\<exists>w1 w2 w3 w4 w5 w6 w7 w8 w9 w10 w11 w12 w13 w14 w15 w16
          situation clauses contradictions legal_structure tone_analysis legal_risks
          legal_summary remedy type risk_level urgency jurisdiction legal_framework.
      log_provenance (demo_collaborators (Inr ())) actor (str_of ''Starting comprehensive situation analysis'') []
        = (Inr (), w1)
    \<and> log_provenance (demo_collaborators (Inr ())) actor
        (str_of ''Step 1: Interpreting situation with SituationInterpreter'') w1 = (Inr (), w2)
    \<and> interpret_situation (demo_collaborators (Inr ())) (PStr (str_of ''You must pay the fee'')) PNone w2 = (Inr situation, w3)
    \<and> log_provenance (demo_collaborators (Inr ())) actor (str_of ''Step 2: Extracting clauses with JARVIS'') w3
        = (Inr (), w4)
    \<and> extract_clauses (demo_collaborators (Inr ())) (PStr (str_of ''You must pay the fee'')) w4 = (Inr clauses, w5)
    \<and> log_provenance (demo_collaborators (Inr ())) actor (str_of ''Step 3: Detecting contradictions with JARVIS'') w5
        = (Inr (), w6)
    \<and> detect_contradictions (demo_collaborators (Inr ())) clauses w6 = (Inr contradictions, w7)
    \<and> log_provenance (demo_collaborators (Inr ())) actor (str_of ''Step 4: Analyzing legal structure with JARVIS'') w7
        = (Inr (), w8)
    \<and> analyze_legal_structure (demo_collaborators (Inr ())) (PStr (str_of ''You must pay the fee'')) w8 = (Inr legal_structure, w9)
    \<and> log_provenance (demo_collaborators (Inr ())) actor (str_of ''Step 5: Analyzing tone and risks with FRIDAY'') w9
        = (Inr (), w10)
    \<and> interpret_tone (demo_collaborators (Inr ())) (PStr (str_of ''You must pay the fee'')) w10 = (Inr tone_analysis, w11)
    \<and> analyze_legal_risk (demo_collaborators (Inr ())) (PStr (str_of ''You must pay the fee'')) w11 = (Inr legal_risks, w12)
    \<and> log_provenance (demo_collaborators (Inr ())) actor (str_of ''Step 6: Generating legal summary with FRIDAY'') w12
        = (Inr (), w13)
    \<and> generate_legal_summary (demo_collaborators (Inr ())) (PStr (str_of ''You must pay the fee'')) tone_analysis legal_risks w13
        = (Inr legal_summary, w14)
    \<and> log_provenance (demo_collaborators (Inr ())) actor (str_of ''Step 7: Synthesizing remedy'') w14 = (Inr (), w15)
    \<and> subscript situation (str_of ''type'') = Inr type
    \<and> subscript legal_summary (str_of ''risk_level'') = Inr risk_level
    \<and> subscript situation (str_of ''urgency'') = Inr urgency
    \<and> subscript situation (str_of ''jurisdiction'') = Inr jurisdiction
    \<and> subscript situation (str_of ''legal_framework'') = Inr legal_framework
    \<and> synthesize_remedy (demo_collaborators (Inr ()))
          (PDict [(str_of ''type'', type),
                  (str_of ''risk_level'', risk_level),
                  (str_of ''contradictions'', contradictions),
                  (str_of ''tone_analysis'', tone_analysis),
                  (str_of ''urgency'', urgency),
                  (str_of ''jurisdiction'', jurisdiction),
                  (str_of ''legal_framework'', legal_framework)]) w15
        = (Inr remedy, w16))"
proof -
  obtain results where run:
    "analyze_situation (demo_collaborators (Inr ())) (str_of ''20240101_120000'')
        (PStr (str_of ''You must pay the fee'')) PNone []
        = (Inr results,
         [Logged actor (str_of ''Starting comprehensive situation analysis''),
          Logged actor (str_of ''Step 1: Interpreting situation with SituationInterpreter''),
          Called ''interpret_situation'' [PStr (str_of ''You must pay the fee''), PNone],
          Logged actor (str_of ''Step 2: Extracting clauses with JARVIS''),
          Called ''extract_clauses'' [PStr (str_of ''You must pay the fee'')],
          Logged actor (str_of ''Step 3: Detecting contradictions with JARVIS''),
          Called ''detect_contradictions'' [PList [PStr (str_of ''clause A''), PStr (str_of ''clause B'')]],
          Logged actor (str_of ''Step 4: Analyzing legal structure with JARVIS''),
          Called ''analyze_legal_structure'' [PStr (str_of ''You must pay the fee'')],
          Logged actor (str_of ''Step 5: Analyzing tone and risks with FRIDAY''),
          Called ''interpret_tone'' [PStr (str_of ''You must pay the fee'')],
          Called ''analyze_legal_risk'' [PStr (str_of ''You must pay the fee'')],
          Logged actor (str_of ''Step 6: Generating legal summary with FRIDAY''),
          Called ''generate_legal_summary'' [PStr (str_of ''You must pay the fee''), PStr (str_of ''neutral''), PList []],
          Logged actor (str_of ''Step 7: Synthesizing remedy''),
          Called ''synthesize_remedy''
           [PDict [(str_of ''type'', PStr (str_of ''fee_demand'')),
                   (str_of ''risk_level'', PStr (str_of ''HIGH'')),
                   (str_of ''contradictions'', PList [PStr (str_of ''A against B'')]),
                   (str_of ''tone_analysis'', PStr (str_of ''neutral'')),
                   (str_of ''urgency'', PDict [(str_of ''level'', PStr (str_of ''low''))]),
                   (str_of ''jurisdiction'',
                      PDict [(str_of ''primary'', PStr (str_of ''commercial'')),
                             (str_of ''secondary'', PList [])]),
                   (str_of ''legal_framework'', PStr (str_of ''UCC''))]],
          Called ''now'' [],
          Dumped (str_of ''output/verobrix_analysis_20240101_120000.json''),
          Logged actor (str_of ''Analysis results saved to output/verobrix_analysis_20240101_120000.json''),
          Logged actor (str_of ''Comprehensive analysis completed'')])"
    by (simp add: demo_defs output_filename_def str_of_def)
  show ?thesis
    apply (rule exI [of _ results])
    apply (rule conjI)
     apply (rule run)
    apply (rule analysis_pipeline_order [OF run])
    done
qed

lemma compile_results_dump_json [simp]:
  "compile_results (C\<lparr>dump_json := d\<rparr>) = compile_results C"
  by (simp add: compile_results_def fun_eq_iff)

lemma analyze_situation_Inr:
  assumes "analyze_situation C session_id input_text situation_context w0 = (Inr results, w_end)"
  obtains w1 where "compile_results C session_id input_text situation_context w0 = (Inr results, w1)"
  using assms unfolding analyze_situation_def bind_io_eq_Inr return_io_def by auto

text \<open>
  C6. Take a run of the analysis that returned \<open>results\<close>, with any behaviour \<open>d\<close> of the
  file system, and replace the file system by one where writing the results raises an
  exception derived from \<open>Exception\<close>. If the provenance log does not raise (as its
  contract says), the analysis still returns, and returns the same \<open>results\<close>: the failure
  is logged with the text of the exception, then the completion is logged, and nothing
  is raised.
\<close>

theorem persistence_failure_is_contained:
  assumes reference: "analyze_situation (C\<lparr>dump_json := d\<rparr>) session_id input_text
                        situation_context w0 = (Inr results, w_ref)"
    and fails: "\<forall>r w. \<exists>e w'. dump_json C (output_filename session_id) r w = (Inl e, w')
                          \<and> is_Exception e"
    and logs: "\<forall>a m w. \<exists>w'. log_provenance C a m w = (Inr (), w')"
  shows "\<exists>w1 e w2 w3 w4.
       compile_results C session_id input_text situation_context w0 = (Inr results, w1)
     \<and> dump_json C (output_filename session_id) results w1 = (Inl e, w2)
     \<and> is_Exception e
     \<and> log_provenance C actor (str_of ''Error saving results: '' @ message e) w2 = (Inr (), w3)
     \<and> log_provenance C actor (str_of ''Comprehensive analysis completed'') w3 = (Inr (), w4)
     \<and> analyze_situation C session_id input_text situation_context w0 = (Inr results, w4)"
proof -
  from reference obtain w1 where
    compile: "compile_results C session_id input_text situation_context w0 = (Inr results, w1)"
    by (elim analyze_situation_Inr) simp
  from fails obtain e w2 where
    dump: "dump_json C (output_filename session_id) results w1 = (Inl e, w2)" and exc: "is_Exception e"
    by blast
  from logs obtain w3 where
    log1: "log_provenance C actor (str_of ''Error saving results: '' @ message e) w2 = (Inr (), w3)"
    by blast
  from logs obtain w4 where
    log2: "log_provenance C actor (str_of ''Comprehensive analysis completed'') w3 = (Inr (), w4)"
    by blast
  have save: "save_analysis_results C session_id results w1 = (Inr (), w3)"
    by (simp add: save_analysis_results_def Let_def dump save_failed_def exc call_def log1)
  have "analyze_situation C session_id input_text situation_context w0 = (Inr results, w4)"
    by (simp add: analyze_situation_def bind_io_def compile save call_def log2 return_io_def)
  with compile dump exc log1 log2 show ?thesis by blast
qed

theorem persistence_failure_is_contained_witness:
  "\<exists>results.
      analyze_situation ((demo_collaborators (Inl (Raised True (str_of ''Permission denied''))))\<lparr>dump_json := dump_json (demo_collaborators (Inr ()))\<rparr>) (str_of ''20240101_120000'')
        (PStr (str_of ''You must pay the fee'')) PNone []
        = (Inr results,
         [Logged actor (str_of ''Starting comprehensive situation analysis''),
          Logged actor (str_of ''Step 1: Interpreting situation with SituationInterpreter''),
          Called ''interpret_situation'' [PStr (str_of ''You must pay the fee''), PNone],
          Logged actor (str_of ''Step 2: Extracting clauses with JARVIS''),
          Called ''extract_clauses'' [PStr (str_of ''You must pay the fee'')],
          Logged actor (str_of ''Step 3: Detecting contradictions with JARVIS''),
          Called ''detect_contradictions'' [PList [PStr (str_of ''clause A''), PStr (str_of ''clause B'')]],
          Logged actor (str_of ''Step 4: Analyzing legal structure with JARVIS''),
          Called ''analyze_legal_structure'' [PStr (str_of ''You must pay the fee'')],
          Logged actor (str_of ''Step 5: Analyzing tone and risks with FRIDAY''),
          Called ''interpret_tone'' [PStr (str_of ''You must pay the fee'')],
          Called ''analyze_legal_risk'' [PStr (str_of ''You must pay the fee'')],
          Logged actor (str_of ''Step 6: Generating legal summary with FRIDAY''),
          Called ''generate_legal_summary'' [PStr (str_of ''You must pay the fee''), PStr (str_of ''neutral''), PList []],
          Logged actor (str_of ''Step 7: Synthesizing remedy''),
          Called ''synthesize_remedy''
           [PDict [(str_of ''type'', PStr (str_of ''fee_demand'')),
                   (str_of ''risk_level'', PStr (str_of ''HIGH'')),
                   (str_of ''contradictions'', PList [PStr (str_of ''A against B'')]),
                   (str_of ''tone_analysis'', PStr (str_of ''neutral'')),
                   (str_of ''urgency'', PDict [(str_of ''level'', PStr (str_of ''low''))]),
                   (str_of ''jurisdiction'',
                      PDict [(str_of ''primary'', PStr (str_of ''commercial'')),
                             (str_of ''secondary'', PList [])]),
                   (str_of ''legal_framework'', PStr (str_of ''UCC''))]],
          Called ''now'' [],
          Dumped (str_of ''output/verobrix_analysis_20240101_120000.json''),
          Logged actor (str_of ''Analysis results saved to output/verobrix_analysis_20240101_120000.json''),
          Logged actor (str_of ''Comprehensive analysis completed'')])
    \<and> analyze_situation (demo_collaborators (Inl (Raised True (str_of ''Permission denied'')))) (str_of ''20240101_120000'')
        (PStr (str_of ''You must pay the fee'')) PNone []
        = (Inr results,
         [Logged actor (str_of ''Starting comprehensive situation analysis''),
          Logged actor (str_of ''Step 1: Interpreting situation with SituationInterpreter''),
          Called ''interpret_situation'' [PStr (str_of ''You must pay the fee''), PNone],
          Logged actor (str_of ''Step 2: Extracting clauses with JARVIS''),
          Called ''extract_clauses'' [PStr (str_of ''You must pay the fee'')],
          Logged actor (str_of ''Step 3: Detecting contradictions with JARVIS''),
          Called ''detect_contradictions'' [PList [PStr (str_of ''clause A''), PStr (str_of ''clause B'')]],
          Logged actor (str_of ''Step 4: Analyzing legal structure with JARVIS''),
          Called ''analyze_legal_structure'' [PStr (str_of ''You must pay the fee'')],
          Logged actor (str_of ''Step 5: Analyzing tone and risks with FRIDAY''),
          Called ''interpret_tone'' [PStr (str_of ''You must pay the fee'')],
          Called ''analyze_legal_risk'' [PStr (str_of ''You must pay the fee'')],
          Logged actor (str_of ''Step 6: Generating legal summary with FRIDAY''),
          Called ''generate_legal_summary'' [PStr (str_of ''You must pay the fee''), PStr (str_of ''neutral''), PList []],
          Logged actor (str_of ''Step 7: Synthesizing remedy''),
          Called ''synthesize_remedy''
           [PDict [(str_of ''type'', PStr (str_of ''fee_demand'')),
                   (str_of ''risk_level'', PStr (str_of ''HIGH'')),
                   (str_of ''contradictions'', PList [PStr (str_of ''A against B'')]),
                   (str_of ''tone_analysis'', PStr (str_of ''neutral'')),
                   (str_of ''urgency'', PDict [(str_of ''level'', PStr (str_of ''low''))]),
                   (str_of ''jurisdiction'',
                      PDict [(str_of ''primary'', PStr (str_of ''commercial'')),
                             (str_of ''secondary'', PList [])]),
                   (str_of ''legal_framework'', PStr (str_of ''UCC''))]],
          Called ''now'' [],
          Dumped (str_of ''output/verobrix_analysis_20240101_120000.json''),
          Logged actor (str_of ''Error saving results: Permission denied''),
          Logged actor (str_of ''Comprehensive analysis completed'')])"
proof -
  obtain results where reference:
    "analyze_situation ((demo_collaborators (Inl (Raised True (str_of ''Permission denied''))))\<lparr>dump_json := dump_json (demo_collaborators (Inr ()))\<rparr>) (str_of ''20240101_120000'')
        (PStr (str_of ''You must pay the fee'')) PNone []
        = (Inr results,
         [Logged actor (str_of ''Starting comprehensive situation analysis''),
          Logged actor (str_of ''Step 1: Interpreting situation with SituationInterpreter''),
          Called ''interpret_situation'' [PStr (str_of ''You must pay the fee''), PNone],
          Logged actor (str_of ''Step 2: Extracting clauses with JARVIS''),
          Called ''extract_clauses'' [PStr (str_of ''You must pay the fee'')],
          Logged actor (str_of ''Step 3: Detecting contradictions with JARVIS''),
          Called ''detect_contradictions'' [PList [PStr (str_of ''clause A''), PStr (str_of ''clause B'')]],
          Logged actor (str_of ''Step 4: Analyzing legal structure with JARVIS''),
          Called ''analyze_legal_structure'' [PStr (str_of ''You must pay the fee'')],
          Logged actor (str_of ''Step 5: Analyzing tone and risks with FRIDAY''),
          Called ''interpret_tone'' [PStr (str_of ''You must pay the fee'')],
          Called ''analyze_legal_risk'' [PStr (str_of ''You must pay the fee'')],
          Logged actor (str_of ''Step 6: Generating legal summary with FRIDAY''),
          Called ''generate_legal_summary'' [PStr (str_of ''You must pay the fee''), PStr (str_of ''neutral''), PList []],
          Logged actor (str_of ''Step 7: Synthesizing remedy''),
          Called ''synthesize_remedy''
           [PDict [(str_of ''type'', PStr (str_of ''fee_demand'')),
                   (str_of ''risk_level'', PStr (str_of ''HIGH'')),
                   (str_of ''contradictions'', PList [PStr (str_of ''A against B'')]),
                   (str_of ''tone_analysis'', PStr (str_of ''neutral'')),
                   (str_of ''urgency'', PDict [(str_of ''level'', PStr (str_of ''low''))]),
                   (str_of ''jurisdiction'',
                      PDict [(str_of ''primary'', PStr (str_of ''commercial'')),
                             (str_of ''secondary'', PList [])]),
                   (str_of ''legal_framework'', PStr (str_of ''UCC''))]],
          Called ''now'' [],
          Dumped (str_of ''output/verobrix_analysis_20240101_120000.json''),
          Logged actor (str_of ''Analysis results saved to output/verobrix_analysis_20240101_120000.json''),
          Logged actor (str_of ''Comprehensive analysis completed'')])"
    by (simp add: demo_defs output_filename_def str_of_def)
  have fails: "\<forall>r w. \<exists>e w'. dump_json (demo_collaborators (Inl (Raised True (str_of ''Permission denied''))))
           (output_filename (str_of ''20240101_120000'')) r w = (Inl e, w') \<and> is_Exception e"
    by (simp add: demo_collaborators_def)
  have logs: "\<forall>a m w. \<exists>w'. log_provenance (demo_collaborators (Inl (Raised True (str_of ''Permission denied'')))) a m w = (Inr (), w')"
    by (simp add: demo_collaborators_def)
  from persistence_failure_is_contained [OF reference fails logs] obtain w1 e w2 w3 w4 where
      "compile_results (demo_collaborators (Inl (Raised True (str_of ''Permission denied'')))) (str_of ''20240101_120000'')
        (PStr (str_of ''You must pay the fee'')) PNone [] = (Inr results, w1)"
      and "dump_json (demo_collaborators (Inl (Raised True (str_of ''Permission denied'')))) (output_filename (str_of ''20240101_120000'')) results w1 = (Inl e, w2)"
      and "log_provenance (demo_collaborators (Inl (Raised True (str_of ''Permission denied'')))) actor (str_of ''Error saving results: '' @ message e) w2 = (Inr (), w3)"
      and "log_provenance (demo_collaborators (Inl (Raised True (str_of ''Permission denied'')))) actor (str_of ''Comprehensive analysis completed'') w3 = (Inr (), w4)"
      and run: "analyze_situation (demo_collaborators (Inl (Raised True (str_of ''Permission denied'')))) (str_of ''20240101_120000'')
        (PStr (str_of ''You must pay the fee'')) PNone [] = (Inr results, w4)"
    by blast
  then have "w4 = [Logged actor (str_of ''Starting comprehensive situation analysis''),
          Logged actor (str_of ''Step 1: Interpreting situation with SituationInterpreter''),
          Called ''interpret_situation'' [PStr (str_of ''You must pay the fee''), PNone],
          Logged actor (str_of ''Step 2: Extracting clauses with JARVIS''),
          Called ''extract_clauses'' [PStr (str_of ''You must pay the fee'')],
          Logged actor (str_of ''Step 3: Detecting contradictions with JARVIS''),
          Called ''detect_contradictions'' [PList [PStr (str_of ''clause A''), PStr (str_of ''clause B'')]],
          Logged actor (str_of ''Step 4: Analyzing legal structure with JARVIS''),
          Called ''analyze_legal_structure'' [PStr (str_of ''You must pay the fee'')],
          Logged actor (str_of ''Step 5: Analyzing tone and risks with FRIDAY''),
          Called ''interpret_tone'' [PStr (str_of ''You must pay the fee'')],
          Called ''analyze_legal_risk'' [PStr (str_of ''You must pay the fee'')],
          Logged actor (str_of ''Step 6: Generating legal summary with FRIDAY''),
          Called ''generate_legal_summary'' [PStr (str_of ''You must pay the fee''), PStr (str_of ''neutral''), PList []],
          Logged actor (str_of ''Step 7: Synthesizing remedy''),
          Called ''synthesize_remedy''
           [PDict [(str_of ''type'', PStr (str_of ''fee_demand'')),
                   (str_of ''risk_level'', PStr (str_of ''HIGH'')),
                   (str_of ''contradictions'', PList [PStr (str_of ''A against B'')]),
                   (str_of ''tone_analysis'', PStr (str_of ''neutral'')),
                   (str_of ''urgency'', PDict [(str_of ''level'', PStr (str_of ''low''))]),
                   (str_of ''jurisdiction'',
                      PDict [(str_of ''primary'', PStr (str_of ''commercial'')),
                             (str_of ''secondary'', PList [])]),
                   (str_of ''legal_framework'', PStr (str_of ''UCC''))]],
          Called ''now'' [],
          Dumped (str_of ''output/verobrix_analysis_20240101_120000.json''),
          Logged actor (str_of ''Error saving results: Permission denied''),
          Logged actor (str_of ''Comprehensive analysis completed'')]"
    by (clarsimp simp add: demo_defs output_filename_def str_of_def)
  with reference run show ?thesis by blast
qed

text \<open>
  The handler is \<open>except Exception\<close>: an exception of another kind raised while writing
  the file, such as \<open>KeyboardInterrupt\<close>, is not handled and leaves the function.
\<close>

lemma save_lets_other_exceptions_pass:
  assumes "dump_json C (output_filename session_id) results w = (Inl e, w')"
    and "\<not> is_Exception e"
  shows "save_analysis_results C session_id results w = (Inl (Collab e), w')"
  using assms by (simp add: save_analysis_results_def save_failed_def)

section \<open>Properties of the summary\<close>

lemma return_io_apply [simp]: "return_io x w = (Inr x, w)"
  by (simp add: return_io_def)

lemma lift_e_apply [simp]: "lift_e m w = (m, w)"
  by (simp add: lift_e_def)

lemma print_apply [simp]: "print line out = (Inr (), out @ [line])"
  by (simp add: print_def)

lemma bind_io_apply: "bind_io m f w = (case m w of (Inl e, w') \<Rightarrow> (Inl e, w') | (Inr x, w') \<Rightarrow> f x w')"
  by (simp add: bind_io_def)

lemma bind_io_Inr: "m w = (Inr x, w') \<Longrightarrow> bind_io m f w = f x w'"
  by (simp add: bind_io_def)

lemma bind_io_Inl: "m w = (Inl e, w') \<Longrightarrow> bind_io m f w = (Inl e, w')"
  by (simp add: bind_io_def)

lemma for_each_print: "for_each xs (\<lambda>x. print (g x)) out = (Inr (), out @ map g xs)"
  by (induction xs arbitrary: out) (simp_all add: bind_io_apply)

lemma str_items_strings [simp]: "str_items (map PStr ss) = Inr ss"
  by (induction ss) simp_all

lemma py_join_strings [simp]: "py_join sep (PList (map PStr ss)) = Inr (str_join sep ss)"
  by (simp add: py_join_def)

lemma for_each_risks:
  assumes "list_all2 (\<lambda>r (l, d). subscript r (str_of ''level'') = Inr l
              \<and> subscript r (str_of ''description'') = Inr d) rs lds"
  shows "for_each rs (\<lambda>risk.
            bind_io (lift_e (subscript risk (str_of ''level''))) (\<lambda>level.
            bind_io (lift_e (subscript risk (str_of ''description''))) (\<lambda>description.
            print (str_of ''  - '' @ py_str U level @ str_of '' RISK: ''
                     @ py_str U description)))) out
         = (Inr (), out @ map (\<lambda>(l, d). str_of ''  - '' @ py_str U l @ str_of '' RISK: '' @ py_str U d) lds)"
  using assms
  by (induction rs lds arbitrary: out rule: list_all2_induct) (auto simp: bind_io_apply)

lemma list_or_empty_truthy: "list_or_empty v xs \<Longrightarrow> truthy v \<longleftrightarrow> xs \<noteq> []"
  by (auto simp: list_or_empty_def)

lemma list_or_empty_nonempty: "list_or_empty v xs \<Longrightarrow> xs \<noteq> [] \<Longrightarrow> v = PList xs"
  by (auto simp: list_or_empty_def)

lemma contradiction_line_eq:
  "contradiction_line U = (\<lambda>(i, c). str_of ''  '' @ decimal i @ str_of ''. '' @
                 (case c of
                    PStr s \<Rightarrow> s
                  | PDict kvs \<Rightarrow> (case map_of kvs (str_of ''description'') of
                        None \<Rightarrow> str_of ''Unknown contradiction''
                      | Some d \<Rightarrow> py_str U d)
                  | _ \<Rightarrow> py_repr U c))"
  by (auto simp: contradiction_line_def py_str_def fun_eq_iff split: pyval.splits option.splits)

lemma summary_header_lines:
  assumes "subscript results (str_of ''session_id'') = Inr sid"
    and "subscript results (str_of ''timestamp'') = Inr ts"
    and "subscript results (str_of ''situation_analysis'') = Inr sa"
    and "subscript sa (str_of ''type'') = Inr (PStr ty)"
    and "subscript results (str_of ''legal_analysis'') = Inr la"
    and "subscript la (str_of ''legal_summary'') = Inr ls"
    and "subscript ls (str_of ''risk_level'') = Inr rl"
    and "subscript sa (str_of ''urgency'') = Inr u"
    and "subscript u (str_of ''level'') = Inr (PStr lv)"
  shows "summary_header U results out =
     (Inr (), out @
        [[10] @ rule_line,
         str_of ''VEROBRIX LEGAL ANALYSIS SUMMARY'',
         rule_line,
         str_of ''Session ID: '' @ py_str U sid,
         str_of ''Analysis Time: '' @ py_str U ts,
         str_of ''Situation Type: '' @ str_upper U ty,
         str_of ''Risk Level: '' @ py_str U rl,
         str_of ''Urgency: '' @ str_upper U lv])"
  using assms by (simp add: summary_header_def bind_io_apply py_upper_def)

lemma summary_jurisdiction_lines:
  assumes "subscript results (str_of ''situation_analysis'') = Inr sa"
    and "subscript sa (str_of ''jurisdiction'') = Inr j"
    and "subscript j (str_of ''primary'') = Inr (PStr pr)"
    and "subscript j (str_of ''secondary'') = Inr v"
    and "list_or_empty v (map PStr secs)"
  shows "summary_jurisdiction U results out =
     (Inr (), out @ [str_of ''Primary Jurisdiction: '' @ str_upper U pr]
        @ (if secs = [] then []
           else [str_of ''Secondary Jurisdictions: '' @ str_upper U (str_join (str_of '', '') secs)]))"
proof (cases "secs = []")
  case True
  with assms list_or_empty_truthy [OF assms(5)] show ?thesis
    by (simp add: summary_jurisdiction_def bind_io_apply py_upper_def)
next
  case False
  with assms list_or_empty_nonempty [OF assms(5)] show ?thesis
    by (simp add: summary_jurisdiction_def bind_io_apply py_upper_def)
qed

lemma summary_entities_lines:
  assumes "subscript results (str_of ''situation_analysis'') = Inr sa"
    and "subscript sa (str_of ''entities'') = Inr e"
    and "subscript e (str_of ''people'') = Inr vp"
    and "list_or_empty vp (map PStr people)"
    and "subscript e (str_of ''organizations'') = Inr vo"
    and "list_or_empty vo (map PStr orgs)"
  shows "summary_entities U results out =
     (Inr (), out
        @ (if people = [] then []
           else [str_of ''People Involved: '' @ str_join (str_of '', '') people])
        @ (if orgs = [] then []
           else [str_of ''Organizations: '' @ str_join (str_of '', '') orgs]))"
proof -
  have p: "(if truthy vp
              then bind_io (lift_e (bind_e (subscript e (str_of ''people''))
                                      (py_join (str_of '', '')))) (\<lambda>joined.
                   print (str_of ''People Involved: '' @ joined))
              else return_io ()) out
        = (Inr (), out @ (if people = [] then []
           else [str_of ''People Involved: '' @ str_join (str_of '', '') people]))" for out
    using assms(3) list_or_empty_truthy [OF assms(4)] list_or_empty_nonempty [OF assms(4)]
    by (cases "people = []") (simp_all add: bind_io_apply)
  have q: "(if truthy vo
     then bind_io (lift_e (bind_e (subscript e (str_of ''organizations''))
                             (py_join (str_of '', '')))) (\<lambda>joined.
          print (str_of ''Organizations: '' @ joined))
     else return_io ()) out
        = (Inr (), out @ (if orgs = [] then []
           else [str_of ''Organizations: '' @ str_join (str_of '', '') orgs]))" for out
    using assms(5) list_or_empty_truthy [OF assms(6)] list_or_empty_nonempty [OF assms(6)]
    by (cases "orgs = []") (simp_all add: bind_io_apply)
  show ?thesis
    unfolding summary_entities_def
    by (simp add: bind_io_apply assms(1,2,3,5) p q split del: if_split)
qed

lemma summary_contradictions_lines:
  assumes "subscript results (str_of ''legal_analysis'') = Inr la"
    and "subscript la (str_of ''contradictions'') = Inr v"
    and "list_or_empty v cs"
  shows "summary_contradictions U results out =
     (Inr (), out
        @ (if cs = [] then []
           else ([10] @ str_of ''CONTRADICTIONS DETECTED: '' @ decimal (length cs))
             # map (contradiction_line U) (zip [1 ..< Suc (length cs)] cs)))"
  using assms(1,2) list_or_empty_truthy [OF assms(3)] list_or_empty_nonempty [OF assms(3)]
  by (cases "cs = []")
     (simp_all add: summary_contradictions_def bind_io_apply for_each_print enumerate_def)

lemma summary_risks_lines:
  assumes "subscript results (str_of ''legal_analysis'') = Inr la"
    and "subscript la (str_of ''legal_risks'') = Inr v"
    and "list_or_empty v rs"
    and "list_all2 (\<lambda>r (l, d). subscript r (str_of ''level'') = Inr l
              \<and> subscript r (str_of ''description'') = Inr d) rs lds"
  shows "summary_risks U results out =
     (Inr (), out
        @ (if lds = [] then []
           else ([10] @ str_of ''LEGAL RISKS IDENTIFIED: '' @ decimal (length lds))
             # map (\<lambda>(l, d). str_of ''  - '' @ py_str U l @ str_of '' RISK: '' @ py_str U d) lds))"
proof -
  from assms(4) have len: "length rs = length lds" by (rule list_all2_lengthD)
  then have e: "rs = [] \<longleftrightarrow> lds = []" by auto
  show ?thesis
    using assms(1,2) list_or_empty_truthy [OF assms(3)] list_or_empty_nonempty [OF assms(3)] e len
    by (cases "rs = []")
       (simp_all add: summary_risks_def bind_io_apply for_each_risks [OF assms(4)])
qed

lemma summary_immediate_lines:
  assumes "subscript results (str_of ''recommendations'') = Inr recs"
    and "subscript recs (str_of ''immediate_actions'') = Inr v"
    and "list_or_empty v xs"
  shows "summary_immediate U results out =
     (Inr (), out
        @ (if xs = [] then []
           else ([10] @ str_of ''IMMEDIATE ACTIONS REQUIRED:'')
             # map (\<lambda>action. str_of ''  '' @ bullet @ str_of '' '' @ py_str U action) xs))"
  using assms(1,2) list_or_empty_truthy [OF assms(3)] list_or_empty_nonempty [OF assms(3)]
  by (cases "xs = []")
     (simp_all add: summary_immediate_def bind_io_apply for_each_print)

lemma summary_warnings_lines:
  assumes "subscript results (str_of ''recommendations'') = Inr recs"
    and "subscript recs (str_of ''warnings'') = Inr v"
    and "list_or_empty v xs"
  shows "summary_warnings U results out =
     (Inr (), out
        @ (if xs = [] then []
           else ([10] @ str_of ''WARNINGS:'')
             # map (\<lambda>warning. str_of ''  '' @ warning_sign @ str_of ''  '' @ py_str U warning) xs))"
  using assms(1,2) list_or_empty_truthy [OF assms(3)] list_or_empty_nonempty [OF assms(3)]
  by (cases "xs = []")
     (simp_all add: summary_warnings_def bind_io_apply for_each_print)

lemma summary_strategies_lines:
  assumes "subscript results (str_of ''remedy'') = Inr rem"
    and "subscript rem (str_of ''legal_strategies'') = Inr v"
    and "list_or_empty v xs"
  shows "summary_strategies U results out =
     (Inr (), out
        @ (if xs = [] then []
           else ([10] @ str_of ''RECOMMENDED LEGAL STRATEGIES:'')
             # map (\<lambda>strategy. str_of ''  '' @ bullet @ str_of '' '' @ py_str U strategy) xs))"
  using assms(1,2) list_or_empty_truthy [OF assms(3)] list_or_empty_nonempty [OF assms(3)]
  by (cases "xs = []")
     (simp_all add: summary_strategies_def bind_io_apply for_each_print)

text \<open>
  C7. When the contradictions of a result are a non-empty list, the block of the summary
  that reports them prints the header with their number and then one line for each, numbered
  from 1: a bare string as it is, a record by its \<open>description\<close> (a string as it is, any
  other value as an f-string formats it), and the text \<open>Unknown contradiction\<close> for a record
  without a \<open>description\<close>. A value that is neither a string nor a record goes through the
  \<open>else\<close> branch and is printed by its \<open>repr\<close>.
\<close>

theorem contradictions_rendered:
  assumes "subscript results (str_of ''legal_analysis'') = Inr la"
    and "subscript la (str_of ''contradictions'') = Inr (PList cs)"
    and "cs \<noteq> []"
  shows "summary_contradictions U results out =
     (Inr (), out
        @ [[10] @ str_of ''CONTRADICTIONS DETECTED: '' @ decimal (length cs)]
        @ map (\<lambda>(i, c). str_of ''  '' @ decimal i @ str_of ''. '' @
                 (case c of
                    PStr s \<Rightarrow> s
                  | PDict kvs \<Rightarrow> (case map_of kvs (str_of ''description'') of
                        None \<Rightarrow> str_of ''Unknown contradiction''
                      | Some d \<Rightarrow> py_str U d)
                  | _ \<Rightarrow> py_repr U c))
            (zip [1 ..< Suc (length cs)] cs))"
  using assms
  by (simp add: summary_contradictions_def bind_io_apply for_each_print enumerate_def
      contradiction_line_eq)

theorem contradictions_rendered_witness:
  "summary_contradictions ascii_db
     (PDict [(str_of ''legal_analysis'', PDict [(str_of ''contradictions'', PList [PStr (str_of ''fee stated twice''), PDict [(str_of ''description'', PStr (str_of ''deadline conflict'')), (str_of ''clause_refs'', PList [PInt 2, PInt 5])], PDict [(str_of ''clause_refs'', PList [PInt 1])]])])]) []
   = (Inr (),
      [[10] @ str_of ''CONTRADICTIONS DETECTED: 3'',
       str_of ''  1. fee stated twice'',
       str_of ''  2. deadline conflict'',
       str_of ''  3. Unknown contradiction''])"
  using contradictions_rendered
    [of "PDict [(str_of ''legal_analysis'', PDict [(str_of ''contradictions'', PList [PStr (str_of ''fee stated twice''), PDict [(str_of ''description'', PStr (str_of ''deadline conflict'')), (str_of ''clause_refs'', PList [PInt 2, PInt 5])], PDict [(str_of ''clause_refs'', PList [PInt 1])]])])]"
        "PDict [(str_of ''contradictions'', PList [PStr (str_of ''fee stated twice''), PDict [(str_of ''description'', PStr (str_of ''deadline conflict'')), (str_of ''clause_refs'', PList [PInt 2, PInt 5])], PDict [(str_of ''clause_refs'', PList [PInt 1])]])]"
        "[PStr (str_of ''fee stated twice''), PDict [(str_of ''description'', PStr (str_of ''deadline conflict'')), (str_of ''clause_refs'', PList [PInt 2, PInt 5])], PDict [(str_of ''clause_refs'', PList [PInt 1])]]"
        ascii_db "[]"]
  by (simp add: py_str_def str_of_def decimal.simps upt_rec)

text \<open>
  C8. Take a result whose fields are those of the data model, where each of the fields
  \<open>secondary\<close>, \<open>people\<close>, \<open>organizations\<close>, \<open>contradictions\<close>, \<open>legal_risks\<close>,
  \<open>immediate_actions\<close>, \<open>warnings\<close> and \<open>legal_strategies\<close> is either a list or some
  empty value such as \<open>None\<close> (\<open>list_or_empty\<close>). Then the summary returns without an
  exception, and what it prints is the fixed head, one block for each field that is not
  empty, and the closing rule: an empty field contributes no line at all, not even its
  header.
\<close>

theorem summary_omits_empty_sections:
  assumes "subscript results (str_of ''session_id'') = Inr sid"
    and "subscript results (str_of ''timestamp'') = Inr ts"
    and "subscript results (str_of ''situation_analysis'') = Inr sa"
    and "subscript sa (str_of ''type'') = Inr (PStr ty)"
    and "subscript results (str_of ''legal_analysis'') = Inr la"
    and "subscript la (str_of ''legal_summary'') = Inr ls"
    and "subscript ls (str_of ''risk_level'') = Inr rl"
    and "subscript sa (str_of ''urgency'') = Inr u"
    and "subscript u (str_of ''level'') = Inr (PStr lv)"
    and "subscript sa (str_of ''jurisdiction'') = Inr j"
    and "subscript j (str_of ''primary'') = Inr (PStr pr)"
    and "subscript j (str_of ''secondary'') = Inr v_secondary"
    and "list_or_empty v_secondary (map PStr secondary)"
    and "subscript sa (str_of ''entities'') = Inr e"
    and "subscript e (str_of ''people'') = Inr v_people"
    and "list_or_empty v_people (map PStr people)"
    and "subscript e (str_of ''organizations'') = Inr v_organizations"
    and "list_or_empty v_organizations (map PStr organizations)"
    and "subscript la (str_of ''contradictions'') = Inr v_contradictions"
    and "list_or_empty v_contradictions contradictions"
    and "subscript la (str_of ''legal_risks'') = Inr v_risks"
    and "list_or_empty v_risks risks"
    and "list_all2 (\<lambda>r (l, d). subscript r (str_of ''level'') = Inr l
              \<and> subscript r (str_of ''description'') = Inr d) risks risk_fields"
    and "subscript results (str_of ''recommendations'') = Inr recs"
    and "subscript recs (str_of ''immediate_actions'') = Inr v_immediate"
    and "list_or_empty v_immediate immediate"
    and "subscript recs (str_of ''warnings'') = Inr v_warnings"
    and "list_or_empty v_warnings warning_items"
    and "subscript results (str_of ''remedy'') = Inr rem"
    and "subscript rem (str_of ''legal_strategies'') = Inr v_strategies"
    and "list_or_empty v_strategies strategies"
  shows "print_analysis_summary U results out =
     (Inr (), out @
        [[10] @ rule_line,
         str_of ''VEROBRIX LEGAL ANALYSIS SUMMARY'',
         rule_line,
         str_of ''Session ID: '' @ py_str U sid,
         str_of ''Analysis Time: '' @ py_str U ts,
         str_of ''Situation Type: '' @ str_upper U ty,
         str_of ''Risk Level: '' @ py_str U rl,
         str_of ''Urgency: '' @ str_upper U lv,
         str_of ''Primary Jurisdiction: '' @ str_upper U pr]
        @ (if secondary = [] then []
           else [str_of ''Secondary Jurisdictions: ''
                   @ str_upper U (str_join (str_of '', '') secondary)])
        @ (if people = [] then []
           else [str_of ''People Involved: '' @ str_join (str_of '', '') people])
        @ (if organizations = [] then []
           else [str_of ''Organizations: '' @ str_join (str_of '', '') organizations])
        @ (if contradictions = [] then []
           else ([10] @ str_of ''CONTRADICTIONS DETECTED: '' @ decimal (length contradictions))
             # map (contradiction_line U) (zip [1 ..< Suc (length contradictions)] contradictions))
        @ (if risk_fields = [] then []
           else ([10] @ str_of ''LEGAL RISKS IDENTIFIED: '' @ decimal (length risk_fields))
             # map (\<lambda>(l, d). str_of ''  - '' @ py_str U l @ str_of '' RISK: '' @ py_str U d)
                 risk_fields)
        @ (if immediate = [] then []
           else ([10] @ str_of ''IMMEDIATE ACTIONS REQUIRED:'')
             # map (\<lambda>action. str_of ''  '' @ bullet @ str_of '' '' @ py_str U action) immediate)
        @ (if warning_items = [] then []
           else ([10] @ str_of ''WARNINGS:'')
             # map (\<lambda>warning. str_of ''  '' @ warning_sign @ str_of ''  '' @ py_str U warning)
                 warning_items)
        @ (if strategies = [] then []
           else ([10] @ str_of ''RECOMMENDED LEGAL STRATEGIES:'')
             # map (\<lambda>strategy. str_of ''  '' @ bullet @ str_of '' '' @ py_str U strategy)
                 strategies)
        @ [[10] @ rule_line])"
  unfolding print_analysis_summary_def
  by (simp add: bind_io_apply
      summary_header_lines [OF assms(1-9)]
      summary_jurisdiction_lines [OF assms(3,10-13)]
      summary_entities_lines [OF assms(3,14-18)]
      summary_contradictions_lines [OF assms(5,19,20)]
      summary_risks_lines [OF assms(5,21-23)]
      summary_immediate_lines [OF assms(24-26)]
      summary_warnings_lines [OF assms(24,27,28)]
      summary_strategies_lines [OF assms(29-31)]
      split del: if_split)

theorem summary_omits_empty_sections_witness:
  "print_analysis_summary ascii_db
     (PDict [(str_of ''session_id'', PStr (str_of ''20240101_120000'')), (str_of ''timestamp'', PStr (str_of ''2024-01-01T12:00:00'')), (str_of ''situation_analysis'', PDict [(str_of ''type'', PStr (str_of ''unknown'')), (str_of ''urgency'', PDict [(str_of ''level'', PStr (str_of ''low''))]), (str_of ''jurisdiction'', PDict [(str_of ''primary'', PStr (str_of ''state'')), (str_of ''secondary'', PList [])]), (str_of ''entities'', PDict [(str_of ''people'', PList []), (str_of ''organizations'', PNone)])]), (str_of ''legal_analysis'', PDict [(str_of ''contradictions'', PList []), (str_of ''legal_risks'', PList []), (str_of ''legal_summary'', PDict [(str_of ''risk_level'', PStr (str_of ''LOW''))])]), (str_of ''remedy'', PDict [(str_of ''legal_strategies'', PList [])]), (str_of ''recommendations'', PDict [(str_of ''immediate_actions'', PList []), (str_of ''warnings'', PList [])])]) []
   = (Inr (),
      [[10] @ rule_line,
       str_of ''VEROBRIX LEGAL ANALYSIS SUMMARY'',
       rule_line,
       str_of ''Session ID: 20240101_120000'',
       str_of ''Analysis Time: 2024-01-01T12:00:00'',
       str_of ''Situation Type: UNKNOWN'',
       str_of ''Risk Level: LOW'',
       str_of ''Urgency: LOW'',
       str_of ''Primary Jurisdiction: STATE'',
       [10] @ rule_line])"
  using summary_omits_empty_sections [where
      results = "PDict [(str_of ''session_id'', PStr (str_of ''20240101_120000'')), (str_of ''timestamp'', PStr (str_of ''2024-01-01T12:00:00'')), (str_of ''situation_analysis'', PDict [(str_of ''type'', PStr (str_of ''unknown'')), (str_of ''urgency'', PDict [(str_of ''level'', PStr (str_of ''low''))]), (str_of ''jurisdiction'', PDict [(str_of ''primary'', PStr (str_of ''state'')), (str_of ''secondary'', PList [])]), (str_of ''entities'', PDict [(str_of ''people'', PList []), (str_of ''organizations'', PNone)])]), (str_of ''legal_analysis'', PDict [(str_of ''contradictions'', PList []), (str_of ''legal_risks'', PList []), (str_of ''legal_summary'', PDict [(str_of ''risk_level'', PStr (str_of ''LOW''))])]), (str_of ''remedy'', PDict [(str_of ''legal_strategies'', PList [])]), (str_of ''recommendations'', PDict [(str_of ''immediate_actions'', PList []), (str_of ''warnings'', PList [])])]" and
      U = "ascii_db" and
      out = "[]" and
      sid = "PStr (str_of ''20240101_120000'')" and
      ts = "PStr (str_of ''2024-01-01T12:00:00'')" and
      sa = "PDict [(str_of ''type'', PStr (str_of ''unknown'')), (str_of ''urgency'', PDict [(str_of ''level'', PStr (str_of ''low''))]), (str_of ''jurisdiction'', PDict [(str_of ''primary'', PStr (str_of ''state'')), (str_of ''secondary'', PList [])]), (str_of ''entities'', PDict [(str_of ''people'', PList []), (str_of ''organizations'', PNone)])]" and
      ty = "str_of ''unknown''" and
      la = "PDict [(str_of ''contradictions'', PList []), (str_of ''legal_risks'', PList []), (str_of ''legal_summary'', PDict [(str_of ''risk_level'', PStr (str_of ''LOW''))])]" and
      ls = "PDict [(str_of ''risk_level'', PStr (str_of ''LOW''))]" and
      rl = "PStr (str_of ''LOW'')" and
      u = "PDict [(str_of ''level'', PStr (str_of ''low''))]" and
      lv = "str_of ''low''" and
      j = "PDict [(str_of ''primary'', PStr (str_of ''state'')), (str_of ''secondary'', PList [])]" and
      pr = "str_of ''state''" and
      v_secondary = "PList []" and
      secondary = "[]" and
      e = "PDict [(str_of ''people'', PList []), (str_of ''organizations'', PNone)]" and
      v_people = "PList []" and
      people = "[]" and
      v_organizations = "PNone" and
      organizations = "[]" and
      v_contradictions = "PList []" and
      contradictions = "[]" and
      v_risks = "PList []" and
      risks = "[]" and
      risk_fields = "[]" and
      recs = "PDict [(str_of ''immediate_actions'', PList []), (str_of ''warnings'', PList [])]" and
      v_immediate = "PList []" and
      immediate = "[]" and
      v_warnings = "PList []" and
      warning_items = "[]" and
      rem = "PDict [(str_of ''legal_strategies'', PList [])]" and
      v_strategies = "PList []" and
      strategies = "[]"]
  by (simp add: list_or_empty_def py_str_def ascii_db_def str_of_def)

text \<open>
  The eight fields are read by subscript. A dictionary that lacks one of them is not a
  result of the data model, and it is not summarized: the lookup raises \<open>KeyError\<close> after
  the lines before it have been printed. Here the jurisdiction has no \<open>secondary\<close> entry.
\<close>

lemma summary_raises_on_absent_field:
  "print_analysis_summary ascii_db
     (PDict [(str_of ''session_id'', PStr (str_of ''20240101_120000'')),
             (str_of ''timestamp'', PStr (str_of ''2024-01-01T12:00:00'')),
             (str_of ''situation_analysis'',
                PDict [(str_of ''type'', PStr (str_of ''unknown'')),
                       (str_of ''urgency'', PDict [(str_of ''level'', PStr (str_of ''low''))]),
                       (str_of ''jurisdiction'', PDict [(str_of ''primary'', PStr (str_of ''state''))]),
                       (str_of ''entities'',
                          PDict [(str_of ''people'', PList []),
                                 (str_of ''organizations'', PList [])])]),
             (str_of ''legal_analysis'',
                PDict [(str_of ''contradictions'', PList []),
                       (str_of ''legal_risks'', PList []),
                       (str_of ''legal_summary'',
                          PDict [(str_of ''risk_level'', PStr (str_of ''LOW''))])]),
             (str_of ''remedy'', PDict [(str_of ''legal_strategies'', PList [])]),
             (str_of ''recommendations'',
                PDict [(str_of ''immediate_actions'', PList []),
                       (str_of ''warnings'', PList [])])]) []
   = (Inl (KeyError (PStr (str_of ''secondary''))),
      [[10] @ rule_line,
       str_of ''VEROBRIX LEGAL ANALYSIS SUMMARY'',
       rule_line,
       str_of ''Session ID: 20240101_120000'',
       str_of ''Analysis Time: 2024-01-01T12:00:00'',
       str_of ''Situation Type: UNKNOWN'',
       str_of ''Risk Level: LOW'',
       str_of ''Urgency: LOW'',
       str_of ''Primary Jurisdiction: STATE''])"
  by (simp add: print_analysis_summary_def summary_header_def summary_jurisdiction_def
      bind_io_apply py_upper_def py_str_def ascii_db_def str_of_def)

section \<open>Properties of the HTML cleaner\<close>

lemma splitlines_no_linebreak:
  "line \<in> set (splitlines s) \<Longrightarrow> \<forall>c \<in> set line. \<not> is_linebreak c"
proof (induction s arbitrary: line rule: splitlines.induct)
  case (1 s)
  show ?case
  proof (cases "s = []")
    case True
    with 1(2) show ?thesis by (simp add: splitlines.simps)
  next
    case False
    show ?thesis
    proof (cases "dropWhile (\<lambda>c. \<not> is_linebreak c) s")
      case Nil
      then have "\<forall>c\<in>set s. \<not> is_linebreak c"
        by (simp add: dropWhile_eq_Nil_conv)
      moreover from 1(2) False Nil have "line = s"
        by (simp add: splitlines.simps [of s])
      ultimately show ?thesis by simp
    next
      case (Cons c rest)
      from 1(2) False Cons
      consider "line = takeWhile (\<lambda>c. \<not> is_linebreak c) s"
        | "line \<in> set (splitlines (case rest of d # rest' \<Rightarrow> if c = 13 \<and> d = 10 then rest' else rest
                               | [] \<Rightarrow> rest))"
        by (auto simp: splitlines.simps [of s])
      then show ?thesis
      proof cases
        case 1
        then show ?thesis by (auto dest: set_takeWhileD)
      next
        case 2
        with "1.IH" [OF False Cons] show ?thesis by blast
      qed
    qed
  qed
qed

lemma is_linebreak_is_space: "is_linebreak c \<Longrightarrow> is_space c"
  by (auto simp: is_linebreak_def is_space_def)

lemma strip_subset: "set (strip s) \<subseteq> set s"
proof -
  have "set (strip s) \<subseteq> set (dropWhile is_space s)"
    unfolding strip_def using set_dropWhileD by fastforce
  also have "\<dots> \<subseteq> set s" using set_dropWhileD by fastforce
  finally show ?thesis .
qed

lemma strip_last: "strip s \<noteq> [] \<Longrightarrow> \<not> is_space (last (strip s))"
  unfolding strip_def
  by (simp add: last_rev hd_dropWhile)

lemma rev_dropWhile_rev_take: "\<exists>n. rev (dropWhile P (rev t)) = take n t"
proof -
  have "rev t = takeWhile P (rev t) @ dropWhile P (rev t)" by simp
  then have "t = rev (dropWhile P (rev t)) @ rev (takeWhile P (rev t))"
    by (metis rev_append rev_rev_ident)
  then have "take (length (rev (dropWhile P (rev t)))) t = rev (dropWhile P (rev t))"
    by (metis append_eq_conv_conj)
  then show ?thesis by metis
qed

lemma strip_hd: "strip s \<noteq> [] \<Longrightarrow> \<not> is_space (hd (strip s))"
proof -
  assume ne: "strip s \<noteq> []"
  obtain n where n: "strip s = take n (dropWhile is_space s)"
    unfolding strip_def using rev_dropWhile_rev_take by blast
  with ne have "dropWhile is_space s \<noteq> []" "n \<noteq> 0" by auto
  then have "hd (strip s) = hd (dropWhile is_space s)"
    by (simp add: n hd_take)
  with \<open>dropWhile is_space s \<noteq> []\<close> show ?thesis
    by (simp add: hd_dropWhile)
qed

lemma strip_idem: "strip (strip s) = strip s"
proof (cases "strip s = []")
  case True
  have "strip [] = []" by (simp add: strip_def)
  with True show ?thesis by simp
next
  case False
  have 1: "dropWhile is_space (strip s) = strip s"
    using strip_hd [OF False] False by (cases "strip s") auto
  have "dropWhile is_space (rev (strip s)) = rev (strip s)"
    using strip_last [OF False] False
    by (cases "rev (strip s)") (auto simp: last_rev [symmetric] simp del: last_rev)
  then show ?thesis
    by (simp add: strip_def [of "strip s"] 1)
qed

lemma splitlines_join:
  assumes "\<forall>l \<in> set ls. l \<noteq> [] \<and> (\<forall>c \<in> set l. \<not> is_linebreak c)"
  shows "splitlines (str_join [10] ls) = ls"
  using assms
proof (induction ls)
  case Nil
  then show ?case by (simp add: splitlines.simps)
next
  case (Cons x xs)
  then have x: "x \<noteq> []" "\<forall>c\<in>set x. \<not> is_linebreak c" by simp_all
  show ?case
  proof (cases xs)
    case Nil
    from x have dw: "dropWhile (\<lambda>c. \<not> is_linebreak c) x = []"
      by simp
    have "splitlines x = [x]"
      by (subst splitlines.simps) (simp only: dw x if_False list.case)
    with Nil show ?thesis by simp
  next
    case (Cons y ys)
    let ?rest = "str_join [10] (y # ys)"
    have lb: "is_linebreak 10" by (simp add: is_linebreak_def)
    have d: "dropWhile (\<lambda>c. \<not> is_linebreak c) (x @ 10 # ?rest) = 10 # ?rest"
      using x lb by (simp add: dropWhile_append2)
    have t: "takeWhile (\<lambda>c. \<not> is_linebreak c) (x @ 10 # ?rest) = x"
      using x lb by (simp add: takeWhile_append2)
    have "splitlines (x @ 10 # ?rest) = x # splitlines ?rest"
      using x d t by (subst splitlines.simps) (simp split: list.splits)
    moreover have "splitlines ?rest = y # ys"
      using Cons.IH Cons.prems Cons by simp
    ultimately show ?thesis using Cons by simp
  qed
qed

text \<open>
  C10. The text that \<open>clean_html\<close> returns is a list of lines joined by newlines; these
  are its lines in the sense of \<open>splitlines\<close>, and each of them is non-empty, contains no
  line boundary, and neither starts nor ends with whitespace (stripping it changes
  nothing). So the output has no blank line.
\<close>

theorem clean_html_lines_stripped:
  "\<exists>ls. clean_html html_content = str_join [10] ls
     \<and> splitlines (clean_html html_content) = ls
     \<and> (\<forall>line \<in> set ls.
           line \<noteq> [] \<and> (\<forall>c \<in> set line. \<not> is_linebreak c)
           \<and> \<not> is_space (hd line) \<and> \<not> is_space (last line) \<and> strip line = line)"
proof -
  define body where "body =
         replace (str_of ''&#39;'') [39] (replace (str_of ''&quot;'') [34]
           (replace (str_of ''&gt;'') (str_of ''>'') (replace (str_of ''&lt;'') (str_of ''<'')
             (replace (str_of ''&amp;'') (str_of ''&'')
               (re_sub False tag_pattern [] (re_sub True script_style_pattern [] html_content))))))"
  define ls where "ls = map strip (filter (\<lambda>line. strip line \<noteq> []) (splitlines body))"
  have out: "clean_html html_content = str_join [10] ls"
    by (simp add: clean_html_def Let_def ls_def body_def)
  have good: "l \<noteq> [] \<and> (\<forall>c \<in> set l. \<not> is_linebreak c)
       \<and> \<not> is_space (hd l) \<and> \<not> is_space (last l) \<and> strip l = l" if "l \<in> set ls" for l
  proof -
    from that obtain line where line: "line \<in> set (splitlines body)" "strip line \<noteq> []" "l = strip line"
      by (auto simp: ls_def)
    from splitlines_no_linebreak [OF line(1)] strip_subset [of line]
    have "\<forall>c \<in> set l. \<not> is_linebreak c" by (auto simp: line(3))
    with line strip_hd strip_last strip_idem show ?thesis by simp
  qed
  then have "splitlines (str_join [10] ls) = ls"
    by (intro splitlines_join) blast
  with good out show ?thesis by auto
qed

theorem clean_html_lines_stripped_witness:
  "clean_html (str_of ''<b> Hi </b>'' @ [10, 10] @ str_of ''&amp;x  '')
     = str_of ''Hi'' @ [10] @ str_of ''&x''
   \<and> splitlines (clean_html (str_of ''<b> Hi </b>'' @ [10, 10] @ str_of ''&amp;x  ''))
     = [str_of ''Hi'', str_of ''&x'']
   \<and> str_of ''Hi'' \<noteq> [] \<and> \<not> is_space (hd (str_of ''Hi''))
   \<and> \<not> is_space (last (str_of ''Hi'')) \<and> strip (str_of ''Hi'') = str_of ''Hi''
   \<and> str_of ''&x'' \<noteq> [] \<and> \<not> is_space (hd (str_of ''&x''))
   \<and> \<not> is_space (last (str_of ''&x'')) \<and> strip (str_of ''&x'') = str_of ''&x''"
proof -
  have run: "clean_html (str_of ''<b> Hi </b>'' @ [10, 10] @ str_of ''&amp;x  '')
     = str_join [10] [str_of ''Hi'', str_of ''&x'']"
    by (simp add: clean_html_def Let_def str_of_def re_sub.simps replace.simps splitlines.simps
        script_style_pattern_def tag_pattern_def strip_def is_space_def is_linebreak_def)
  from clean_html_lines_stripped
    [of "str_of ''<b> Hi </b>'' @ [10, 10] @ str_of ''&amp;x  ''"]
  obtain ls where ls: "str_join [10] [str_of ''Hi'', str_of ''&x''] = str_join [10] ls"
    "splitlines (str_join [10] [str_of ''Hi'', str_of ''&x'']) = ls"
    "\<forall>line \<in> set ls.
         line \<noteq> [] \<and> (\<forall>c \<in> set line. \<not> is_linebreak c)
         \<and> \<not> is_space (hd line) \<and> \<not> is_space (last line) \<and> strip line = line"
    unfolding run by blast
  have "splitlines (str_join [10] [str_of ''Hi'', str_of ''&x'']) = [str_of ''Hi'', str_of ''&x'']"
    by (rule splitlines_join) (simp add: str_of_def is_linebreak_def)
  with ls have "ls = [str_of ''Hi'', str_of ''&x'']" by simp
  with ls(2,3) run show ?thesis by simp
qed

end
